theory Spec2Isabelle
  imports Main "HOL-Library.Product_Lexorder"
begin

section \<open>Data model\<close>

text \<open>
  The offline synchronisation engine of the mobile client: the durable mutation queue
  (\<^verbatim>\<open>src/db/repositories/syncQueue.ts\<close>), the local job table
  (\<^verbatim>\<open>src/db/repositories/jobs.ts\<close>) and the reconciliation store
  (\<^verbatim>\<open>src/store/syncStore.ts\<close>).

  Values that cross the JSON boundary (queue payloads, request bodies) are modelled by a
  small JSON datatype; a value stored with \<^verbatim>\<open>JSON.stringify\<close> and read back with
  \<^verbatim>\<open>JSON.parse\<close> is the value itself. JavaScript numbers that hold counters,
  versions and timestamps are integers. An instant is its epoch milliseconds; the ISO-8601
  string the store keeps is the encoding of that instant.
\<close>

datatype json =
    JNull
  | JBool bool
  | JNum int
  | JStr string
  | JArr "json list"
  | JObj "(string \<times> json) list"

datatype SyncAction = Create | Update | Delete

datatype SyncEntityType = Job | ChecklistResponse | Photo | Signature

datatype NetworkStatus = Online | Offline | Unknown

datatype Resolution = Local | Server | Merged

text \<open>A row of table \<^verbatim>\<open>sync_queue\<close> (columns as in \<^verbatim>\<open>src/db/index.ts\<close>).\<close>

record SyncQueueRow =
  row_id :: nat
  entity_type :: SyncEntityType
  entity_id :: string
  row_action :: SyncAction
  row_payload :: json
  file_path :: "string option"
  retry_count :: int
  last_error :: "string option"
  row_priority :: int
  created_at :: int

record SyncQueueItem =
  itemId :: nat
  entityType :: SyncEntityType
  entityId :: string
  action :: SyncAction
  payload :: json
  filePath :: "string option"
  retryCount :: int
  lastError :: "string option"
  priority :: int
  createdAt :: int

text \<open>The fields of a job the engine reads (\<^verbatim>\<open>id\<close>, \<^verbatim>\<open>version\<close>); the rest of the object is one JSON value.\<close>

record Job =
  jobId :: string
  version :: int
  jobFields :: json

text \<open>A row of table \<^verbatim>\<open>jobs\<close>; the table is keyed by its primary key \<^verbatim>\<open>id\<close>.\<close>

record LocalJob =
  data :: Job
  server_version :: "int option"
  local_version :: int
  is_dirty :: int
  last_synced_at :: "int option"
  job_created_at :: int

record SyncConflict =
  conflictId :: nat
  conflictEntityType :: SyncEntityType
  conflictEntityId :: string
  localData :: json
  serverData :: Job
  resolved :: bool
  resolution :: "Resolution option"
  conflictCreatedAt :: int

text \<open>
  What a failed remote call throws, as the classifiers of the store read it: an
  \<^verbatim>\<open>AxiosError\<close> with \<^verbatim>\<open>response?.status\<close> and \<^verbatim>\<open>response?.data?.code\<close>, another
  \<^verbatim>\<open>Error\<close> with its message, or a thrown value that is no \<^verbatim>\<open>Error\<close>.
\<close>

datatype err =
    AxiosError (status: "nat option") (code: "string option") (axiosMessage: string)
  | Error string
  | Thrown

datatype httpMethod = GET | POST | PATCH

datatype request = Request (reqMethod: httpMethod) (reqUrl: string) (reqBody: "json option")

text \<open>The fields of \<^verbatim>\<open>response.data\<close> the store reads; an absent field is \<^verbatim>\<open>undefined\<close>.\<close>

record response =
  updated :: "Job list option"
  deleted :: "string list option"
  syncedAt :: "int option"
  jobData :: "Job option"

text \<open>
  The state of the client: the two tables with the \<^verbatim>\<open>AUTOINCREMENT\<close> counter of the queue,
  the fields of the zustand store, and its environment. The remote service answers a
  request as a function of all requests made so far (the last one is the request being
  answered); \<^verbatim>\<open>calls\<close> records the requests made and \<^verbatim>\<open>slept\<close> the delays slept.
\<close>

record world =
  sync_queue :: "SyncQueueRow list"
  sync_queue_seq :: nat
  jobs :: "string \<Rightarrow> LocalJob option"
  networkStatus :: NetworkStatus
  isSyncing :: bool
  lastSyncedAt :: "int option"
  pendingCount :: nat
  conflicts :: "SyncConflict list"
  error :: "string option"
  clock :: int
  remote :: "request list \<Rightarrow> err + response"
  calls :: "request list"
  slept :: "int list"

section \<open>The mutation queue\<close>

definition rowToItem :: "SyncQueueRow \<Rightarrow> SyncQueueItem" where
  "rowToItem row =
     \<lparr>itemId = row_id row, entityType = entity_type row, entityId = entity_id row,
      action = row_action row, payload = row_payload row, filePath = file_path row,
      retryCount = retry_count row, lastError = last_error row,
      priority = row_priority row, createdAt = created_at row\<rparr>"

text \<open>The largest rowid in the table (0 when it is empty).\<close>

definition max_rowid :: "SyncQueueRow list \<Rightarrow> nat" where
  "max_rowid rows = fold max (map row_id rows) 0"

text \<open>
  \<^verbatim>\<open>addToQueue\<close>: \<^verbatim>\<open>DELETE ... WHERE entity_type = ? AND entity_id = ?\<close>, then
  \<^verbatim>\<open>INSERT\<close>. The new rowid is one more than the largest rowid the table ever held
  (\<^verbatim>\<open>AUTOINCREMENT\<close>); \<^verbatim>\<open>retry_count\<close> and \<^verbatim>\<open>created_at\<close> take their column defaults
  (0 and the current time in seconds).
\<close>

definition addToQueue ::
  "SyncEntityType \<Rightarrow> string \<Rightarrow> SyncAction \<Rightarrow> json \<Rightarrow> string option \<Rightarrow> int \<Rightarrow> world \<Rightarrow> nat \<times> world" where
  "addToQueue entityType' entityId' action' payload' filePath' priority' s =
     (let rows = filter (\<lambda>r. \<not> (entity_type r = entityType' \<and> entity_id r = entityId')) (sync_queue s);
          insertId = Suc (max (sync_queue_seq s) (max_rowid rows));
          row = \<lparr>row_id = insertId, entity_type = entityType', entity_id = entityId',
                 row_action = action', row_payload = payload', file_path = filePath',
                 retry_count = 0, last_error = None, row_priority = priority',
                 created_at = clock s div 1000\<rparr>
      in (insertId, s\<lparr>sync_queue := rows @ [row], sync_queue_seq := insertId\<rparr>))"

text \<open>
  \<^verbatim>\<open>getNextQueueItems\<close>: \<^verbatim>\<open>SELECT * FROM sync_queue WHERE retry_count < 3
  ORDER BY priority DESC, created_at ASC LIMIT ?\<close>. The limit is a row count, a natural
  number (every caller passes 10; SQLite reads a negative \<^verbatim>\<open>LIMIT\<close> as no limit, and such
  a call is outside this model). Rows equal in both sort columns stay in rowid order. A
  query returns the state it read.
\<close>

definition getNextQueueItems :: "nat \<Rightarrow> world \<Rightarrow> SyncQueueItem list \<times> world" where
  "getNextQueueItems limit s =
     (map rowToItem
        (take limit
           (sort_key (\<lambda>r. (- row_priority r, created_at r))
              (filter (\<lambda>r. retry_count r < 3) (sync_queue s)))),
      s)"

definition getQueueCount :: "world \<Rightarrow> nat \<times> world" where
  "getQueueCount s = (length (sync_queue s), s)"

definition markItemSuccess :: "nat \<Rightarrow> world \<Rightarrow> world" where
  "markItemSuccess i s = s\<lparr>sync_queue := filter (\<lambda>r. row_id r \<noteq> i) (sync_queue s)\<rparr>"

definition markItemFailed :: "nat \<Rightarrow> string \<Rightarrow> world \<Rightarrow> world" where
  "markItemFailed i msg s =
     s\<lparr>sync_queue :=
         map (\<lambda>r. if row_id r = i
                   then r\<lparr>retry_count := retry_count r + 1, last_error := Some msg\<rparr>
                   else r)
           (sync_queue s)\<rparr>"

definition removeFromQueue :: "nat \<Rightarrow> world \<Rightarrow> world" where
  "removeFromQueue i s = s\<lparr>sync_queue := filter (\<lambda>r. row_id r \<noteq> i) (sync_queue s)\<rparr>"

definition clearQueue :: "world \<Rightarrow> world" where
  "clearQueue s = s\<lparr>sync_queue := []\<rparr>"

definition getFailedItems :: "world \<Rightarrow> SyncQueueItem list \<times> world" where
  "getFailedItems s =
     (map rowToItem (sort_key created_at (filter (\<lambda>r. retry_count r \<ge> 3) (sync_queue s))), s)"

definition retryFailedItem :: "nat \<Rightarrow> world \<Rightarrow> world" where
  "retryFailedItem i s =
     s\<lparr>sync_queue :=
         map (\<lambda>r. if row_id r = i then r\<lparr>retry_count := 0, last_error := None\<rparr> else r)
           (sync_queue s)\<rparr>"

section \<open>The local job table\<close>

text \<open>
  The body that \<^verbatim>\<open>saveJob\<close> and the loop of \<^verbatim>\<open>saveJobs\<close> share: look the row up
  by primary key, then update or insert. \<^verbatim>\<open>!localJob.is_dirty\<close> holds when the column is 0,
  and \<^verbatim>\<open>server_version ?? 0\<close> reads a null version as 0.
\<close>

definition upsertJob :: "int \<Rightarrow> Job \<Rightarrow> bool \<Rightarrow> world \<Rightarrow> world" where
  "upsertJob now job fromServer s =
     (case jobs s (jobId job) of
        Some localJob \<Rightarrow>
          if fromServer then
            (if is_dirty localJob = 0
                \<or> version job > (case server_version localJob of None \<Rightarrow> 0 | Some v \<Rightarrow> v)
             then s\<lparr>jobs := (jobs s)(jobId job \<mapsto>
                      localJob\<lparr>data := job, server_version := Some (version job),
                               last_synced_at := Some now, is_dirty := 0\<rparr>)\<rparr>
             else s)
          else s\<lparr>jobs := (jobs s)(jobId job \<mapsto>
                   localJob\<lparr>data := job, local_version := local_version localJob + 1,
                            is_dirty := 1\<rparr>)\<rparr>
      | None \<Rightarrow>
          s\<lparr>jobs := (jobs s)(jobId job \<mapsto>
               \<lparr>data = job,
                server_version = (if fromServer then Some (version job) else None),
                local_version = 1,
                is_dirty = (if fromServer then 0 else 1),
                last_synced_at = (if fromServer then Some now else None),
                job_created_at = now\<rparr>)\<rparr>)"

definition saveJob :: "Job \<Rightarrow> bool \<Rightarrow> world \<Rightarrow> world" where
  "saveJob job fromServer s = upsertJob (clock s div 1000) job fromServer s"

text \<open>\<^verbatim>\<open>saveJobs\<close> reads the time once, before the loop of its transaction.\<close>

fun saveJobsLoop :: "int \<Rightarrow> Job list \<Rightarrow> bool \<Rightarrow> world \<Rightarrow> world" where
  "saveJobsLoop now [] fromServer s = s"
| "saveJobsLoop now (job # rest) fromServer s =
     saveJobsLoop now rest fromServer (upsertJob now job fromServer s)"

definition saveJobs :: "Job list \<Rightarrow> bool \<Rightarrow> world \<Rightarrow> world" where
  "saveJobs js fromServer s = saveJobsLoop (clock s div 1000) js fromServer s"

definition deleteJob :: "string \<Rightarrow> world \<Rightarrow> world" where
  "deleteJob j s = s\<lparr>jobs := (jobs s)(j := None)\<rparr>"

section \<open>Transport\<close>

text \<open>One call of the HTTP client: the request is recorded and the remote service answers.\<close>

definition apiCall :: "request \<Rightarrow> world \<Rightarrow> (err + response) \<times> world" where
  "apiCall req s = (remote s (calls s @ [req]), s\<lparr>calls := calls s @ [req]\<rparr>)"

definition isVersionConflict :: "err \<Rightarrow> bool" where
  "isVersionConflict e =
     (case e of
        AxiosError st cd m \<Rightarrow> st = Some 409 \<or> cd = Some ''VERSION_CONFLICT''
      | _ \<Rightarrow> False)"

definition isRateLimitError :: "err \<Rightarrow> bool" where
  "isRateLimitError e = (case e of AxiosError st cd m \<Rightarrow> st = Some 429 | _ \<Rightarrow> False)"

text \<open>\<^verbatim>\<open>error instanceof Error ? error.message : fallback\<close>.\<close>

definition errorMessage :: "string \<Rightarrow> err \<Rightarrow> string" where
  "errorMessage fallback e =
     (case e of AxiosError st cd m \<Rightarrow> m | Error m \<Rightarrow> m | Thrown \<Rightarrow> fallback)"

text \<open>\<^verbatim>\<open>sleep(ms)\<close>: the delay is recorded and the clock moves on by it.\<close>

definition sleep :: "int \<Rightarrow> world \<Rightarrow> world" where
  "sleep ms s = s\<lparr>slept := slept s @ [ms], clock := clock s + ms\<rparr>"

text \<open>
  \<^verbatim>\<open>retryWithBackoff\<close>: the \<^verbatim>\<open>for\<close> loop over \<^verbatim>\<open>attempt\<close>, with \<^verbatim>\<open>lastError\<close>
  (undefined before the first failure) thrown after the loop.
\<close>

function retryLoop ::
  "(world \<Rightarrow> (err + 'a) \<times> world) \<Rightarrow> nat \<Rightarrow> int \<Rightarrow> nat \<Rightarrow> err option \<Rightarrow> world \<Rightarrow> (err + 'a) \<times> world" where
  "retryLoop fn maxRetries baseDelay attempt lastErr s =
     (if attempt < maxRetries then
        (case fn s of
           (Inr v, s1) \<Rightarrow> (Inr v, s1)
         | (Inl e, s1) \<Rightarrow>
             if \<not> isRateLimitError e then (Inl e, s1)
             else retryLoop fn maxRetries baseDelay (attempt + 1) (Some e)
                    (if attempt < maxRetries - 1 then sleep (baseDelay * 2 ^ attempt) s1 else s1))
      else (Inl (case lastErr of None \<Rightarrow> Thrown | Some e \<Rightarrow> e), s))"
  by pat_completeness auto
termination
  by (relation "measure (\<lambda>(fn, maxRetries, baseDelay, attempt, lastErr, s). maxRetries - attempt)") auto

definition retryWithBackoff ::
  "(world \<Rightarrow> (err + 'a) \<times> world) \<Rightarrow> nat \<Rightarrow> int \<Rightarrow> world \<Rightarrow> (err + 'a) \<times> world" where
  "retryWithBackoff fn maxRetries baseDelay s = retryLoop fn maxRetries baseDelay 0 None s"

section \<open>The reconciliation store\<close>

text \<open>
  Property access on a payload: a value that is not an object has no properties
  (\<^verbatim>\<open>undefined\<close>); for \<^verbatim>\<open>null\<close> the access throws a \<^verbatim>\<open>TypeError\<close>, which
  \<^verbatim>\<open>processQueueItem\<close> below raises before it reads a property.
\<close>

definition property :: "string \<Rightarrow> json \<Rightarrow> json option" where
  "property k j = (case j of JObj kvs \<Rightarrow> map_of kvs k | _ \<Rightarrow> None)"

fun truthy :: "json option \<Rightarrow> bool" where
  "truthy None = False"
| "truthy (Some JNull) = False"
| "truthy (Some (JBool b)) = b"
| "truthy (Some (JNum n)) = (n \<noteq> 0)"
| "truthy (Some (JStr s)) = (s \<noteq> [])"
| "truthy (Some (JArr xs)) = True"
| "truthy (Some (JObj kvs)) = True"

text \<open>An object literal sent as a request body: a property that is \<^verbatim>\<open>undefined\<close> is left out.\<close>

definition objectOf :: "(string \<times> json option) list \<Rightarrow> json" where
  "objectOf kvs = JObj (concat (map (\<lambda>(k, v). case v of None \<Rightarrow> [] | Some j \<Rightarrow> [(k, j)]) kvs))"

definition discard :: "(err + response) \<times> world \<Rightarrow> (err + unit) \<times> world" where
  "discard r = (case r of (Inl e, s) \<Rightarrow> (Inl e, s) | (Inr v, s) \<Rightarrow> (Inr (), s))"

definition processQueueItem :: "SyncQueueItem \<Rightarrow> world \<Rightarrow> (err + unit) \<times> world" where
  "processQueueItem item s =
     (case entityType item of
        Job \<Rightarrow>
          if action item = Update
          then discard (apiCall (Request PATCH (''/jobs/'' @ entityId item) (Some (payload item))) s)
          else (Inr (), s)
      | ChecklistResponse \<Rightarrow>
          if action item = Update then
            (if payload item = JNull then (Inl (Error ''TypeError''), s)
             else if truthy (property ''completeJob'' (payload item)) \<and> truthy (property ''version'' (payload item))
             then discard (apiCall (Request POST (''/jobs/'' @ entityId item @ ''/complete'')
                    (Some (objectOf [(''responses'', property ''responses'' (payload item)),
                                     (''version'', property ''version'' (payload item))]))) s)
             else discard (apiCall (Request POST (''/jobs/'' @ entityId item @ ''/checklist/batch'')
                    (Some (objectOf [(''responses'', property ''responses'' (payload item))]))) s))
          else (Inr (), s)
      | Photo \<Rightarrow> (Inr (), s)
      | Signature \<Rightarrow> (Inr (), s))"

text \<open>
  \<^verbatim>\<open>handleConflictServerWins\<close>: every failure inside is caught and logged. A response
  without a job makes \<^verbatim>\<open>saveJob\<close> throw on \<^verbatim>\<open>job.id\<close>, which is caught as well.
\<close>

definition handleConflictServerWins :: "SyncQueueItem \<Rightarrow> world \<Rightarrow> world" where
  "handleConflictServerWins item s =
     (if entityType item = Job then
        (case apiCall (Request GET (''/jobs/'' @ entityId item) None) s of
           (Inr resp, s1) \<Rightarrow>
             (case jobData resp of Some serverJob \<Rightarrow> saveJob serverJob True s1 | None \<Rightarrow> s1)
         | (Inl fetchError, s1) \<Rightarrow> s1)
      else s)"

definition updatePendingCount :: "world \<Rightarrow> world" where
  "updatePendingCount s = (case getQueueCount s of (count, s1) \<Rightarrow> s1\<lparr>pendingCount := count\<rparr>)"

text \<open>
  One iteration of the \<^verbatim>\<open>for\<close> loop of \<^verbatim>\<open>pushChanges\<close>; the flag says whether the loop
  was left by \<^verbatim>\<open>break\<close>.
\<close>

definition pushItem :: "SyncQueueItem \<Rightarrow> world \<Rightarrow> bool \<times> world" where
  "pushItem item s =
     (case retryWithBackoff (processQueueItem item) 3 1000 s of
        (Inr u, s1) \<Rightarrow> (False, markItemSuccess (itemId item) s1)
      | (Inl e, s1) \<Rightarrow>
          if isVersionConflict e
          then (False, removeFromQueue (itemId item) (handleConflictServerWins item s1))
          else if isRateLimitError e then (True, s1)
          else (False, markItemFailed (itemId item) (errorMessage ''Unknown error'' e) s1))"

fun pushLoop :: "SyncQueueItem list \<Rightarrow> world \<Rightarrow> bool \<times> world" where
  "pushLoop [] s = (False, s)"
| "pushLoop (item # rest) s =
     (case pushItem item s of
        (True, s1) \<Rightarrow> (True, s1)
      | (False, s1) \<Rightarrow> pushLoop rest s1)"

definition pushChanges :: "world \<Rightarrow> world" where
  "pushChanges s =
     (case getNextQueueItems 10 s of
        (items, s1) \<Rightarrow> updatePendingCount (snd (pushLoop items s1)))"

definition pullRequest :: "world \<Rightarrow> request" where
  "pullRequest s =
     Request POST ''/sync/pull''
       (Some (JObj [(''lastSyncedAt'', JNum (case lastSyncedAt s of None \<Rightarrow> 0 | Some t \<Rightarrow> t)),
                    (''entities'', JArr [JStr ''jobs'', JStr ''customers''])]))"

definition pullChanges :: "world \<Rightarrow> (err + unit) \<times> world" where
  "pullChanges s =
     (case retryWithBackoff (apiCall (pullRequest s)) 3 1000 s of
        (Inr resp, s1) \<Rightarrow>
          (let s2 = (case updated resp of Some js \<Rightarrow> saveJobs js True s1 | None \<Rightarrow> s1);
               s3 = (case deleted resp of Some ids \<Rightarrow> fold deleteJob ids s2 | None \<Rightarrow> s2)
           in (Inr (), s3\<lparr>lastSyncedAt := syncedAt resp\<rparr>))
      | (Inl e, s1) \<Rightarrow> if isRateLimitError e then (Inr (), s1) else (Inl e, s1))"

definition startSync :: "world \<Rightarrow> world" where
  "startSync s =
     (if networkStatus s \<noteq> Online \<or> isSyncing s then s
      else
        (case pullChanges (s\<lparr>isSyncing := True, error := None\<rparr>) of
           (Inr u, s1) \<Rightarrow>
             (let s2 = pushChanges s1
              in updatePendingCount (s2\<lparr>isSyncing := False, lastSyncedAt := Some (clock s2)\<rparr>))
         | (Inl e, s1) \<Rightarrow> s1\<lparr>isSyncing := False, error := Some (errorMessage ''Sync failed'' e)\<rparr>))"


section \<open>Histories of the queue\<close>

text \<open>
  A call of one of the repository's functions on the queue, or the passing of time, and
  a sequence of such calls run one after the other.
\<close>

datatype queue_op =
    AddToQueue SyncEntityType string SyncAction json "string option" int
  | MarkItemSuccess nat
  | MarkItemFailed nat string
  | RemoveFromQueue nat
  | ClearQueue
  | RetryFailedItem nat
  | Tick int

fun run_op :: "queue_op \<Rightarrow> world \<Rightarrow> world" where
  "run_op (AddToQueue et eid a p f pr) s = snd (addToQueue et eid a p f pr s)"
| "run_op (MarkItemSuccess i) s = markItemSuccess i s"
| "run_op (MarkItemFailed i msg) s = markItemFailed i msg s"
| "run_op (RemoveFromQueue i) s = removeFromQueue i s"
| "run_op ClearQueue s = clearQueue s"
| "run_op (RetryFailedItem i) s = retryFailedItem i s"
| "run_op (Tick ms) s = s\<lparr>clock := clock s + ms\<rparr>"

definition run_ops :: "queue_op list \<Rightarrow> world \<Rightarrow> world" where
  "run_ops ops s = fold run_op ops s"

text \<open>The rows of the queue for one entity.\<close>

definition rows_for :: "SyncEntityType \<Rightarrow> string \<Rightarrow> world \<Rightarrow> SyncQueueRow list" where
  "rows_for et eid s = filter (\<lambda>r. entity_type r = et \<and> entity_id r = eid) (sync_queue s)"

text \<open>No two rows of the queue are for the same entity.\<close>

definition one_per_entity :: "world \<Rightarrow> bool" where
  "one_per_entity s = distinct (map (\<lambda>r. (entity_type r, entity_id r)) (sync_queue s))"

text \<open>The order of \<^verbatim>\<open>ORDER BY priority DESC, created_at ASC\<close> on items.\<close>

definition batch_order :: "SyncQueueItem \<Rightarrow> SyncQueueItem \<Rightarrow> bool" where
  "batch_order a b =
     (priority a > priority b \<or> (priority a = priority b \<and> createdAt a \<le> createdAt b))"

text \<open>
  The client at start-up: empty tables, the initial values of the store, a clock and a
  remote service.
\<close>

definition initialWorld :: "int \<Rightarrow> (request list \<Rightarrow> err + response) \<Rightarrow> world" where
  "initialWorld t srv =
     \<lparr>sync_queue = [], sync_queue_seq = 0, jobs = Map.empty, networkStatus = Unknown,
      isSyncing = False, lastSyncedAt = None, pendingCount = 0, conflicts = [], error = None,
      clock = t, remote = srv, calls = [], slept = []\<rparr>"

text \<open>Example states: a job as the server sends it at a version, and a client that never had a remote answer.\<close>

definition exampleJob :: "int \<Rightarrow> string \<Rightarrow> Job" where
  "exampleJob v st = \<lparr>jobId = ''job-1'', version = v, jobFields = JObj [(''status'', JStr st)]\<rparr>"

definition offlineWorld :: world where
  "offlineWorld = initialWorld 7000 (\<lambda>h. Inl (AxiosError None None ''Network Error''))"

text \<open>Job 1 pulled at version 3 and then edited locally: dirty, with \<^verbatim>\<open>server_version = 3\<close>.\<close>

definition dirtyWorld :: world where
  "dirtyWorld =
     saveJob (exampleJob 3 ''in_progress'') False
       (saveJob (exampleJob 3 ''scheduled'') True offlineWorld)"

text \<open>Job 1 pulled at version 5 and not edited since: clean.\<close>

definition cleanWorld :: world where
  "cleanWorld = saveJob (exampleJob 5 ''scheduled'') True offlineWorld"

text \<open>Job 1 created locally and never synced: dirty, with a null \<^verbatim>\<open>server_version\<close>.\<close>

definition unsyncedWorld :: world where
  "unsyncedWorld = saveJob (exampleJob 1 ''scheduled'') False offlineWorld"

text \<open>Example responses of the remote service, and example payloads and items of the queue.\<close>

definition rateLimited :: err where
  "rateLimited = AxiosError (Some 429) (Some ''RATE_LIMIT_EXCEEDED'') ''Request failed with status code 429''"

definition versionConflict :: err where
  "versionConflict = AxiosError (Some 409) (Some ''VERSION_CONFLICT'') ''Request failed with status code 409''"

definition noData :: response where
  "noData = \<lparr>updated = None, deleted = None, syncedAt = None, jobData = None\<rparr>"

definition examplePayload :: "int \<Rightarrow> json" where
  "examplePayload v = JObj [(''status'', JStr ''completed''), (''version'', JNum v)]"

definition exampleItem :: "nat \<Rightarrow> string \<Rightarrow> int \<Rightarrow> SyncQueueItem" where
  "exampleItem i eid pr =
     \<lparr>itemId = i, entityType = Job, entityId = eid, action = Update, payload = examplePayload 2,
      filePath = None, retryCount = 0, lastError = None, priority = pr, createdAt = 0\<rparr>"

text \<open>Three job updates queued with priorities 10, 5 and 0, against a given remote service.\<close>

definition threeJobs :: "(request list \<Rightarrow> err + response) \<Rightarrow> world" where
  "threeJobs srv =
     run_ops [AddToQueue Job ''job-a'' Update (examplePayload 2) None 10,
              AddToQueue Job ''job-b'' Update (examplePayload 2) None 5,
              AddToQueue Job ''job-c'' Update (examplePayload 2) None 0]
       (initialWorld 0 srv)"

text \<open>A remote service that accepts the first request and answers every later one with 429.\<close>

definition limitingServer :: "request list \<Rightarrow> err + response" where
  "limitingServer h = (if length h = 1 then Inr noData else Inl rateLimited)"

text \<open>
  A remote service on which job 1 stands at version 4: it accepts a \<^verbatim>\<open>PATCH\<close> whose body
  expects version 4 and rejects any other with a version conflict, and it answers a
  \<^verbatim>\<open>GET\<close> with the job, or with a network error when \<^verbatim>\<open>reachable\<close> is false.
\<close>

definition conflictServer :: "bool \<Rightarrow> request list \<Rightarrow> err + response" where
  "conflictServer reachable h =
     (if h \<noteq> [] \<and> reqMethod (last h) = PATCH then
        (if (case reqBody (last h) of
               Some b \<Rightarrow> property ''version'' b = Some (JNum 4)
             | None \<Rightarrow> False)
         then Inr noData
         else Inl versionConflict)
      else if reachable then Inr (noData\<lparr>jobData := Some (exampleJob 4 ''cancelled'')\<rparr>)
      else Inl (AxiosError None None ''Network Error''))"

text \<open>Job 1 pulled at version 2, edited locally, and the edit queued.\<close>

definition conflictWorld :: "bool \<Rightarrow> world" where
  "conflictWorld reachable =
     run_ops [AddToQueue Job ''job-1'' Update (examplePayload 2) None 0]
       (saveJob (exampleJob 2 ''completed'') False
          (saveJob (exampleJob 2 ''scheduled'') True (initialWorld 0 (conflictServer reachable))))"

text \<open>A photo upload queued on a client without a network.\<close>

definition photoWorld :: world where
  "photoWorld =
     run_ops [AddToQueue Photo ''photo-1'' Create (JObj [(''jobId'', JStr ''job-1'')])
                (Some ''/path/to/photo.jpg'') 0]
       offlineWorld"

definition photoItem :: SyncQueueItem where
  "photoItem =
     \<lparr>itemId = 1, entityType = Photo, entityId = ''photo-1'', action = Create,
      payload = JObj [(''jobId'', JStr ''job-1'')], filePath = Some ''/path/to/photo.jpg'',
      retryCount = 0, lastError = None, priority = 0, createdAt = 7\<rparr>"


text \<open>A client that is online, with an empty queue, whose clock reads \<^verbatim>\<open>t\<close>.\<close>

definition onlineWorld :: "int \<Rightarrow> (request list \<Rightarrow> err + response) \<Rightarrow> world" where
  "onlineWorld t srv = (initialWorld t srv)\<lparr>networkStatus := Online\<rparr>"

text \<open>A remote service that answers every pull with one updated job and \<^verbatim>\<open>syncedAt = 9000\<close>.\<close>

definition pullServer :: "request list \<Rightarrow> err + response" where
  "pullServer h =
     Inr (noData\<lparr>updated := Some [exampleJob 3 ''scheduled''], deleted := Some [],
                 syncedAt := Some 9000\<rparr>)"

text \<open>A remote service that answers the first request with a server error and every later one with 429.\<close>

definition serverError :: err where
  "serverError = AxiosError (Some 500) (Some ''INTERNAL_ERROR'') ''Request failed with status code 500''"

definition failingServer :: "request list \<Rightarrow> err + response" where
  "failingServer h = (if length h = 1 then Inl serverError else Inl rateLimited)"



section \<open>Properties of the mutation queue\<close>

lemma key_le_iff:
  "((- row_priority a, created_at a) \<le> (- row_priority b, created_at b))
     = batch_order (rowToItem a) (rowToItem b)"
  by (auto simp: batch_order_def rowToItem_def less_eq_prod_def)

lemma sorted_eligible:
  "sorted_wrt (\<lambda>a b. batch_order (rowToItem a) (rowToItem b))
     (sort_key (\<lambda>r. (- row_priority r, created_at r)) rows)"
proof -
  have "sorted (map (\<lambda>r. (- row_priority r, created_at r)) (sort_key (\<lambda>r. (- row_priority r, created_at r)) rows))"
    by (rule sorted_sort_key)
  then have "sorted_wrt (\<lambda>a b. (- row_priority a, created_at a) \<le> (- row_priority b, created_at b))
     (sort_key (\<lambda>r. (- row_priority r, created_at r)) rows)"
    unfolding sorted_map .
  then show ?thesis
    unfolding key_le_iff .
qed

lemma batch_sorted:
  "sorted_wrt batch_order (fst (getNextQueueItems limit s))"
proof -
  let ?ys = "sort_key (\<lambda>r. (- row_priority r, created_at r)) (filter (\<lambda>r. retry_count r < 3) (sync_queue s))"
  have "sorted_wrt (\<lambda>a b. batch_order (rowToItem a) (rowToItem b)) (take limit ?ys)"
    using sorted_eligible sorted_wrt_take by blast
  then show ?thesis
    by (simp add: getNextQueueItems_def sorted_wrt_map)
qed

lemma batch_top:
  assumes r: "r \<in> set (sync_queue s)" "retry_count r < 3"
    and out: "rowToItem r \<notin> set (fst (getNextQueueItems limit s))"
    and x: "x \<in> set (fst (getNextQueueItems limit s))"
  shows "batch_order x (rowToItem r)"
proof -
  let ?ys = "sort_key (\<lambda>r. (- row_priority r, created_at r)) (filter (\<lambda>r. retry_count r < 3) (sync_queue s))"
  have "r \<in> set ?ys" using r by simp
  then have "r \<in> set (take limit ?ys) \<or> r \<in> set (drop limit ?ys)"
    by (metis Un_iff append_take_drop_id set_append)
  moreover have "r \<notin> set (take limit ?ys)"
    using out by (auto simp: getNextQueueItems_def)
  ultimately have rd: "r \<in> set (drop limit ?ys)" by blast
  obtain x' where x': "x' \<in> set (take limit ?ys)" "x = rowToItem x'"
    using x by (auto simp: getNextQueueItems_def)
  have "sorted_wrt (\<lambda>a b. batch_order (rowToItem a) (rowToItem b)) (take limit ?ys @ drop limit ?ys)"
    using sorted_eligible by simp
  then show ?thesis
    using rd x' unfolding sorted_wrt_append by blast
qed

text \<open>
  C7. For every state of the queue and every limit, \<^verbatim>\<open>getNextQueueItems\<close> returns at most
  \<^verbatim>\<open>limit\<close> items (as many as the limit and the eligible rows allow), each of them a row
  of the queue with \<^verbatim>\<open>retryCount < 3\<close>, ordered by priority descending and then by
  \<^verbatim>\<open>createdAt\<close> ascending; no eligible row left out comes before a returned one; and
  the queue is left as it was.
\<close>

theorem getNextQueueItems_batch:
  "length (fst (getNextQueueItems limit s))
      = min limit (length (filter (\<lambda>r. retry_count r < 3) (sync_queue s)))
   \<and> length (fst (getNextQueueItems limit s)) \<le> limit
   \<and> (\<forall>x \<in> set (fst (getNextQueueItems limit s)).
         retryCount x < 3 \<and> x \<in> rowToItem ` set (sync_queue s))
   \<and> sorted_wrt batch_order (fst (getNextQueueItems limit s))
   \<and> (\<forall>r \<in> set (sync_queue s). \<forall>x \<in> set (fst (getNextQueueItems limit s)).
         retry_count r < 3 \<and> rowToItem r \<notin> set (fst (getNextQueueItems limit s))
           \<longrightarrow> batch_order x (rowToItem r))
   \<and> snd (getNextQueueItems limit s) = s"
proof -
  have 1: "length (fst (getNextQueueItems limit s))
      = min limit (length (filter (\<lambda>r. retry_count r < 3) (sync_queue s)))"
    by (simp add: getNextQueueItems_def min.commute)
  have 2: "\<forall>x \<in> set (fst (getNextQueueItems limit s)).
         retryCount x < 3 \<and> x \<in> rowToItem ` set (sync_queue s)"
  proof
    fix x assume "x \<in> set (fst (getNextQueueItems limit s))"
    then obtain r where "r \<in> set (take limit (sort_key (\<lambda>r. (- row_priority r, created_at r)) (filter (\<lambda>r. retry_count r < 3) (sync_queue s))))" "x = rowToItem r"
      by (auto simp: getNextQueueItems_def)
    then have "r \<in> set (filter (\<lambda>r. retry_count r < 3) (sync_queue s))" "x = rowToItem r"
      by (auto dest: in_set_takeD)
    then show "retryCount x < 3 \<and> x \<in> rowToItem ` set (sync_queue s)"
      by (auto simp: rowToItem_def)
  qed
  have 3: "snd (getNextQueueItems limit s) = s"
    by (simp add: getNextQueueItems_def)
  show ?thesis
    using 1 2 3 batch_sorted batch_top by auto
qed

theorem getNextQueueItems_batch_witness:
  "map entityId (fst (getNextQueueItems 2
      (run_ops [AddToQueue Job ''job-1'' Update JNull None 0,
                AddToQueue Job ''job-2'' Update JNull None 10,
                AddToQueue Job ''job-3'' Update JNull None 5,
                AddToQueue Job ''job-4'' Update JNull None 10,
                MarkItemFailed 4 ''a'', MarkItemFailed 4 ''b'', MarkItemFailed 4 ''c'']
         (initialWorld 0 (\<lambda>h. Inl Thrown))))) = [''job-2'', ''job-3'']
   \<and> sorted_wrt batch_order (fst (getNextQueueItems 2
      (run_ops [AddToQueue Job ''job-1'' Update JNull None 0,
                AddToQueue Job ''job-2'' Update JNull None 10,
                AddToQueue Job ''job-3'' Update JNull None 5,
                AddToQueue Job ''job-4'' Update JNull None 10,
                MarkItemFailed 4 ''a'', MarkItemFailed 4 ''b'', MarkItemFailed 4 ''c'']
         (initialWorld 0 (\<lambda>h. Inl Thrown)))))"
proof -
  have "map entityId (fst (getNextQueueItems 2
      (run_ops [AddToQueue Job ''job-1'' Update JNull None 0,
                AddToQueue Job ''job-2'' Update JNull None 10,
                AddToQueue Job ''job-3'' Update JNull None 5,
                AddToQueue Job ''job-4'' Update JNull None 10,
                MarkItemFailed 4 ''a'', MarkItemFailed 4 ''b'', MarkItemFailed 4 ''c'']
         (initialWorld 0 (\<lambda>h. Inl Thrown))))) = [''job-2'', ''job-3'']"
    by (simp add: getNextQueueItems_def run_ops_def addToQueue_def markItemFailed_def
        initialWorld_def max_rowid_def Let_def rowToItem_def less_eq_prod_def)
  then show ?thesis
    using getNextQueueItems_batch [of 2 "run_ops [AddToQueue Job ''job-1'' Update JNull None 0,
                AddToQueue Job ''job-2'' Update JNull None 10,
                AddToQueue Job ''job-3'' Update JNull None 5,
                AddToQueue Job ''job-4'' Update JNull None 10,
                MarkItemFailed 4 ''a'', MarkItemFailed 4 ''b'', MarkItemFailed 4 ''c'']
         (initialWorld 0 (\<lambda>h. Inl Thrown))"]
    by blast
qed

lemma rows_for_addToQueue:
  "rows_for et eid (snd (addToQueue et eid a p f pr s)) =
     [\<lparr>row_id = Suc (max (sync_queue_seq s)
          (max_rowid (filter (\<lambda>r. \<not> (entity_type r = et \<and> entity_id r = eid)) (sync_queue s)))),
       entity_type = et, entity_id = eid, row_action = a, row_payload = p, file_path = f,
       retry_count = 0, last_error = None, row_priority = pr, created_at = clock s div 1000\<rparr>]"
  by (simp add: rows_for_def addToQueue_def Let_def)

lemma run_ops_append: "run_ops (xs @ ys) s = run_ops ys (run_ops xs s)"
  by (simp add: run_ops_def)

lemma entity_key_map_failed:
  "(\<lambda>r. (entity_type r, entity_id r))
     \<circ> (\<lambda>r. if row_id r = i then r\<lparr>retry_count := g r, last_error := h r\<rparr> else r)
   = (\<lambda>r. (entity_type r, entity_id r))"
  by (auto simp: fun_eq_iff)

lemma one_per_entity_addToQueue:
  "one_per_entity s \<Longrightarrow> one_per_entity (snd (addToQueue et eid a p f pr s))"
  by (auto simp: one_per_entity_def addToQueue_def Let_def distinct_map_filter)

lemma one_per_entity_run_op:
  "one_per_entity s \<Longrightarrow> one_per_entity (run_op op s)"
proof (cases op)
  case (AddToQueue et eid a p f pr)
  then show "one_per_entity s \<Longrightarrow> ?thesis"
    by (simp add: one_per_entity_addToQueue)
next
  case (MarkItemFailed i msg)
  then show "one_per_entity s \<Longrightarrow> ?thesis"
    by (simp add: one_per_entity_def markItemFailed_def entity_key_map_failed)
next
  case (RetryFailedItem i)
  then show "one_per_entity s \<Longrightarrow> ?thesis"
    by (simp add: one_per_entity_def retryFailedItem_def entity_key_map_failed)
qed (simp_all add: one_per_entity_def markItemSuccess_def removeFromQueue_def clearQueue_def distinct_map_filter)

lemma one_per_entity_run_ops:
  "one_per_entity s \<Longrightarrow> one_per_entity (run_ops ops s)"
  unfolding run_ops_def
  by (induction ops arbitrary: s) (simp_all add: one_per_entity_run_op)

text \<open>
  C1. After any history of queue operations that ends with an enqueue for an entity, the
  queue holds exactly one row for that entity, with the payload, action and priority of
  that last enqueue, \<^verbatim>\<open>retry_count = 0\<close> and no error; and every history of queue operations
  keeps at most one row per \<^verbatim>\<open>(entity_type, entity_id)\<close>, from the empty queue in
  particular. The calls of a history run one after the other.
\<close>

theorem addToQueue_one_per_entity:
  "(\<exists>row. rows_for et eid (run_ops (ops @ [AddToQueue et eid a p f pr]) s) = [row]
       \<and> row_payload row = p \<and> retry_count row = 0 \<and> row_action row = a
       \<and> row_priority row = pr \<and> last_error row = None)
   \<and> (one_per_entity s \<longrightarrow> one_per_entity (run_ops ops s))
   \<and> one_per_entity (run_ops ops (initialWorld t srv))"
proof -
  have "one_per_entity (initialWorld t srv)"
    by (simp add: one_per_entity_def initialWorld_def)
  then show ?thesis
    by (simp add: run_ops_append run_ops_def rows_for_addToQueue one_per_entity_run_ops [unfolded run_ops_def])
qed


theorem addToQueue_one_per_entity_witness:
  "one_per_entity (initialWorld 0 (\<lambda>h. Inl Thrown))
   \<and> one_per_entity
       (run_ops [AddToQueue Job ''job-1'' Update (JObj [(''status'', JStr ''in_progress'')]) None 0,
                 AddToQueue Job ''job-2'' Update JNull None 5,
                 MarkItemFailed 1 ''timeout'',
                 AddToQueue Job ''job-1'' Update (JObj [(''status'', JStr ''completed'')]) None 10]
          (initialWorld 0 (\<lambda>h. Inl Thrown)))
   \<and> map row_payload (rows_for Job ''job-1''
       (run_ops [AddToQueue Job ''job-1'' Update (JObj [(''status'', JStr ''in_progress'')]) None 0,
                 AddToQueue Job ''job-2'' Update JNull None 5,
                 MarkItemFailed 1 ''timeout'',
                 AddToQueue Job ''job-1'' Update (JObj [(''status'', JStr ''completed'')]) None 10]
          (initialWorld 0 (\<lambda>h. Inl Thrown))))
      = [JObj [(''status'', JStr ''completed'')]]"
proof -
  have init: "one_per_entity (initialWorld 0 (\<lambda>h. Inl Thrown))"
    by (simp add: one_per_entity_def initialWorld_def)
  have "one_per_entity
       (run_ops [AddToQueue Job ''job-1'' Update (JObj [(''status'', JStr ''in_progress'')]) None 0,
                 AddToQueue Job ''job-2'' Update JNull None 5,
                 MarkItemFailed 1 ''timeout'',
                 AddToQueue Job ''job-1'' Update (JObj [(''status'', JStr ''completed'')]) None 10]
          (initialWorld 0 (\<lambda>h. Inl Thrown)))"
    using addToQueue_one_per_entity [where s = "initialWorld 0 (\<lambda>h. Inl Thrown)" and ops =
      "[AddToQueue Job ''job-1'' Update (JObj [(''status'', JStr ''in_progress'')]) None 0,
                 AddToQueue Job ''job-2'' Update JNull None 5,
                 MarkItemFailed 1 ''timeout'',
                 AddToQueue Job ''job-1'' Update (JObj [(''status'', JStr ''completed'')]) None 10]"] init
    by blast
  moreover have "map row_payload (rows_for Job ''job-1''
       (run_ops [AddToQueue Job ''job-1'' Update (JObj [(''status'', JStr ''in_progress'')]) None 0,
                 AddToQueue Job ''job-2'' Update JNull None 5,
                 MarkItemFailed 1 ''timeout'',
                 AddToQueue Job ''job-1'' Update (JObj [(''status'', JStr ''completed'')]) None 10]
          (initialWorld 0 (\<lambda>h. Inl Thrown))))
      = [JObj [(''status'', JStr ''completed'')]]"
    by (simp add: run_ops_def addToQueue_def markItemFailed_def initialWorld_def max_rowid_def Let_def rows_for_def)
  ultimately show ?thesis using init by simp
qed

section \<open>Properties of the local job table\<close>

lemma upsertJob_other:
  "jobId job \<noteq> k \<Longrightarrow> jobs (upsertJob now job fromServer s) k = jobs s k"
  by (simp add: upsertJob_def split: option.splits)

lemma saveJobsLoop_other:
  "k \<notin> jobId ` set js \<Longrightarrow> jobs (saveJobsLoop now js fromServer s) k = jobs s k"
  by (induction js arbitrary: s) (auto simp add: upsertJob_other)

lemma jobs_saveJobsLoop_distinct:
  "distinct (map jobId js) \<Longrightarrow> job \<in> set js
   \<Longrightarrow> jobs (saveJobsLoop now js fromServer s) (jobId job) = jobs (upsertJob now job fromServer s) (jobId job)"
proof (induction js arbitrary: s)
  case Nil
  then show ?case by simp
next
  case (Cons j js)
  show ?case
  proof (cases "job = j")
    case True
    then have "jobId job \<notin> jobId ` set js" using Cons.prems by auto
    then show ?thesis using True by (simp add: saveJobsLoop_other)
  next
    case False
    then have in_js: "job \<in> set js" and ne: "jobId j \<noteq> jobId job"
      using Cons.prems by auto
    have "jobs (saveJobsLoop now js fromServer (upsertJob now j fromServer s)) (jobId job)
        = jobs (upsertJob now job fromServer (upsertJob now j fromServer s)) (jobId job)"
      using Cons.IH [OF _ in_js] Cons.prems by simp
    also have "\<dots> = jobs (upsertJob now job fromServer s) (jobId job)"
      using ne by (simp add: upsertJob_def upsertJob_other split: option.splits)
    finally show ?thesis by simp
  qed
qed

lemma saveJobs_single: "saveJobs [job] fromServer s = saveJob job fromServer s"
  by (simp add: saveJobs_def saveJob_def)

text \<open>
  C2. For an existing record that is dirty and has a server version \<^verbatim>\<open>v\<close>, a server-origin
  upsert (\<^verbatim>\<open>saveJob\<close>, and \<^verbatim>\<open>saveJobs\<close> for a job of a batch that names each job once)
  changes nothing when the incoming version is at most \<^verbatim>\<open>v\<close>; when it is greater, the
  record gets the incoming data, the incoming version as server version and a cleared
  dirty flag (and the time of the upsert as \<^verbatim>\<open>last_synced_at\<close>).
\<close>

theorem saveJob_dirty_server_upsert:
  assumes "jobs s (jobId job) = Some localJob"
    and "is_dirty localJob \<noteq> 0"
    and "server_version localJob = Some v"
  shows "(version job \<le> v \<longrightarrow> saveJob job True s = s)
    \<and> (version job > v \<longrightarrow>
          saveJob job True s =
            s\<lparr>jobs := (jobs s)(jobId job \<mapsto>
                 localJob\<lparr>data := job, server_version := Some (version job),
                          last_synced_at := Some (clock s div 1000), is_dirty := 0\<rparr>)\<rparr>)
    \<and> (distinct (map jobId js) \<and> job \<in> set js \<and> version job \<le> v \<longrightarrow>
          jobs (saveJobs js True s) (jobId job) = Some localJob)
    \<and> (distinct (map jobId js) \<and> job \<in> set js \<and> version job > v \<longrightarrow>
          jobs (saveJobs js True s) (jobId job) =
            Some (localJob\<lparr>data := job, server_version := Some (version job),
                           last_synced_at := Some (clock s div 1000), is_dirty := 0\<rparr>))"
  using assms
  by (simp add: saveJob_def saveJobs_def jobs_saveJobsLoop_distinct upsertJob_def)

text \<open>
  C9. For an existing record that is not dirty, a server-origin upsert overwrites it
  whatever the incoming version is: data replaced, server version set to the incoming
  version, dirty flag cleared, \<^verbatim>\<open>last_synced_at\<close> updated. The same happens to a dirty
  record whose server version is null when the incoming version is greater than 0.
\<close>

theorem saveJob_clean_server_upsert:
  assumes "jobs s (jobId job) = Some localJob"
  shows "(is_dirty localJob = 0 \<or> (server_version localJob = None \<and> version job > 0) \<longrightarrow>
          saveJob job True s =
            s\<lparr>jobs := (jobs s)(jobId job \<mapsto>
                 localJob\<lparr>data := job, server_version := Some (version job),
                          last_synced_at := Some (clock s div 1000), is_dirty := 0\<rparr>)\<rparr>)
    \<and> (distinct (map jobId js) \<and> job \<in> set js
         \<and> (is_dirty localJob = 0 \<or> (server_version localJob = None \<and> version job > 0)) \<longrightarrow>
          jobs (saveJobs js True s) (jobId job) =
            Some (localJob\<lparr>data := job, server_version := Some (version job),
                           last_synced_at := Some (clock s div 1000), is_dirty := 0\<rparr>))"
  using assms
  by (auto simp add: saveJob_def saveJobs_def jobs_saveJobsLoop_distinct upsertJob_def)


lemma dirtyWorld_job:
  "jobs dirtyWorld (jobId (exampleJob v st)) =
     Some \<lparr>data = exampleJob 3 ''in_progress'', server_version = Some 3, local_version = 2,
           is_dirty = 1, last_synced_at = Some 7, job_created_at = 7\<rparr>"
  by (simp add: dirtyWorld_def offlineWorld_def initialWorld_def saveJob_def upsertJob_def exampleJob_def)

theorem saveJob_dirty_server_upsert_witness:
  "saveJob (exampleJob 3 ''completed'') True dirtyWorld = dirtyWorld
   \<and> jobs (saveJobs [exampleJob 2 ''completed''] True dirtyWorld) ''job-1'' =
       Some \<lparr>data = exampleJob 3 ''in_progress'', server_version = Some 3, local_version = 2,
             is_dirty = 1, last_synced_at = Some 7, job_created_at = 7\<rparr>
   \<and> jobs (saveJob (exampleJob 4 ''completed'') True dirtyWorld) ''job-1'' =
       Some \<lparr>data = exampleJob 4 ''completed'', server_version = Some 4, local_version = 2,
             is_dirty = 0, last_synced_at = Some 7, job_created_at = 7\<rparr>
   \<and> jobs (saveJobs [exampleJob 4 ''completed''] True dirtyWorld) ''job-1'' =
       Some \<lparr>data = exampleJob 4 ''completed'', server_version = Some 4, local_version = 2,
             is_dirty = 0, last_synced_at = Some 7, job_created_at = 7\<rparr>"
proof -
  have clk: "clock dirtyWorld div 1000 = 7"
    by (simp add: dirtyWorld_def offlineWorld_def initialWorld_def saveJob_def upsertJob_def exampleJob_def)
  have id: "jobId (exampleJob v st) = ''job-1''" for v st
    by (simp add: exampleJob_def)
  have ver: "version (exampleJob v st) = v" for v st
    by (simp add: exampleJob_def)
  have 1: "saveJob (exampleJob 3 ''completed'') True dirtyWorld = dirtyWorld"
    using saveJob_dirty_server_upsert [where s = dirtyWorld and v = 3 and job = "exampleJob 3 ''completed''", OF dirtyWorld_job]
    by (simp add: id ver clk)
  have 2: "jobs (saveJobs [exampleJob 2 ''completed''] True dirtyWorld) ''job-1'' =
       Some \<lparr>data = exampleJob 3 ''in_progress'', server_version = Some 3, local_version = 2,
             is_dirty = 1, last_synced_at = Some 7, job_created_at = 7\<rparr>"
    using saveJob_dirty_server_upsert [where s = dirtyWorld and v = 3 and job = "exampleJob 2 ''completed''" and js = "[exampleJob 2 ''completed'']", OF dirtyWorld_job]
    by (simp add: id ver clk)
  have 3: "jobs (saveJob (exampleJob 4 ''completed'') True dirtyWorld) ''job-1'' =
       Some \<lparr>data = exampleJob 4 ''completed'', server_version = Some 4, local_version = 2,
             is_dirty = 0, last_synced_at = Some 7, job_created_at = 7\<rparr>"
    using saveJob_dirty_server_upsert [where s = dirtyWorld and v = 3 and job = "exampleJob 4 ''completed''", OF dirtyWorld_job]
    by (simp add: id ver clk)
  have 4: "jobs (saveJobs [exampleJob 4 ''completed''] True dirtyWorld) ''job-1'' =
       Some \<lparr>data = exampleJob 4 ''completed'', server_version = Some 4, local_version = 2,
             is_dirty = 0, last_synced_at = Some 7, job_created_at = 7\<rparr>"
    using saveJob_dirty_server_upsert [where s = dirtyWorld and v = 3 and job = "exampleJob 4 ''completed''" and js = "[exampleJob 4 ''completed'']", OF dirtyWorld_job]
    by (simp add: id ver clk)
  show ?thesis using 1 2 3 4 by simp
qed

lemma cleanWorld_job:
  "jobs cleanWorld (jobId (exampleJob v st)) =
     Some \<lparr>data = exampleJob 5 ''scheduled'', server_version = Some 5, local_version = 1,
           is_dirty = 0, last_synced_at = Some 7, job_created_at = 7\<rparr>"
  by (simp add: cleanWorld_def offlineWorld_def initialWorld_def saveJob_def upsertJob_def exampleJob_def)

lemma unsyncedWorld_job:
  "jobs unsyncedWorld (jobId (exampleJob v st)) =
     Some \<lparr>data = exampleJob 1 ''scheduled'', server_version = None, local_version = 1,
           is_dirty = 1, last_synced_at = None, job_created_at = 7\<rparr>"
  by (simp add: unsyncedWorld_def offlineWorld_def initialWorld_def saveJob_def upsertJob_def exampleJob_def)

theorem saveJob_clean_server_upsert_witness:
  "jobs (saveJob (exampleJob 2 ''cancelled'') True cleanWorld) ''job-1'' =
       Some \<lparr>data = exampleJob 2 ''cancelled'', server_version = Some 2, local_version = 1,
             is_dirty = 0, last_synced_at = Some 7, job_created_at = 7\<rparr>
   \<and> jobs (saveJobs [exampleJob 5 ''cancelled''] True cleanWorld) ''job-1'' =
       Some \<lparr>data = exampleJob 5 ''cancelled'', server_version = Some 5, local_version = 1,
             is_dirty = 0, last_synced_at = Some 7, job_created_at = 7\<rparr>
   \<and> jobs (saveJob (exampleJob 1 ''cancelled'') True unsyncedWorld) ''job-1'' =
       Some \<lparr>data = exampleJob 1 ''cancelled'', server_version = Some 1, local_version = 1,
             is_dirty = 0, last_synced_at = Some 7, job_created_at = 7\<rparr>"
proof -
  have clk: "clock cleanWorld div 1000 = 7" "clock unsyncedWorld div 1000 = 7"
    by (simp_all add: cleanWorld_def unsyncedWorld_def offlineWorld_def initialWorld_def saveJob_def
        upsertJob_def exampleJob_def)
  have id: "jobId (exampleJob v st) = ''job-1''" for v st
    by (simp add: exampleJob_def)
  have ver: "version (exampleJob v st) = v" for v st
    by (simp add: exampleJob_def)
  have 1: "jobs (saveJob (exampleJob 2 ''cancelled'') True cleanWorld) ''job-1'' =
       Some \<lparr>data = exampleJob 2 ''cancelled'', server_version = Some 2, local_version = 1,
             is_dirty = 0, last_synced_at = Some 7, job_created_at = 7\<rparr>"
    using saveJob_clean_server_upsert [where job = "exampleJob 2 ''cancelled''", OF cleanWorld_job]
    by (simp add: id ver clk)
  have 2: "jobs (saveJobs [exampleJob 5 ''cancelled''] True cleanWorld) ''job-1'' =
       Some \<lparr>data = exampleJob 5 ''cancelled'', server_version = Some 5, local_version = 1,
             is_dirty = 0, last_synced_at = Some 7, job_created_at = 7\<rparr>"
    using saveJob_clean_server_upsert [where job = "exampleJob 5 ''cancelled''"
        and js = "[exampleJob 5 ''cancelled'']", OF cleanWorld_job]
    by (simp add: id ver clk)
  have 3: "jobs (saveJob (exampleJob 1 ''cancelled'') True unsyncedWorld) ''job-1'' =
       Some \<lparr>data = exampleJob 1 ''cancelled'', server_version = Some 1, local_version = 1,
             is_dirty = 0, last_synced_at = Some 7, job_created_at = 7\<rparr>"
    using saveJob_clean_server_upsert [where job = "exampleJob 1 ''cancelled''", OF unsyncedWorld_job]
    by (simp add: id ver clk)
  show ?thesis using 1 2 3 by simp
qed

section \<open>Properties of the transport policy\<close>

declare retryLoop.simps [simp del]

lemma retryLoop_done:
  "\<not> attempt < maxRetries
   \<Longrightarrow> retryLoop fn maxRetries baseDelay attempt lastErr s
       = (Inl (case lastErr of None \<Rightarrow> Thrown | Some e \<Rightarrow> e), s)"
  by (subst retryLoop.simps) simp

lemma retryLoop_success:
  "attempt < maxRetries \<Longrightarrow> fn s = (Inr v, s1)
   \<Longrightarrow> retryLoop fn maxRetries baseDelay attempt lastErr s = (Inr v, s1)"
  by (subst retryLoop.simps) simp

lemma retryLoop_pass:
  "attempt < maxRetries \<Longrightarrow> fn s = (Inl e, s1) \<Longrightarrow> \<not> isRateLimitError e
   \<Longrightarrow> retryLoop fn maxRetries baseDelay attempt lastErr s = (Inl e, s1)"
  by (subst retryLoop.simps) simp

lemma retryLoop_retry:
  "attempt < maxRetries \<Longrightarrow> fn s = (Inl e, s1) \<Longrightarrow> isRateLimitError e
   \<Longrightarrow> retryLoop fn maxRetries baseDelay attempt lastErr s
       = retryLoop fn maxRetries baseDelay (Suc attempt) (Some e)
           (if attempt < maxRetries - 1 then sleep (baseDelay * 2 ^ attempt) s1 else s1)"
  by (subst retryLoop.simps) simp

lemma retryWithBackoff_unfold3:
  "retryWithBackoff fn 3 baseDelay s =
     (case fn s of
        (Inr v, s1) \<Rightarrow> (Inr v, s1)
      | (Inl e1, s1) \<Rightarrow>
          if \<not> isRateLimitError e1 then (Inl e1, s1)
          else
            (case fn (sleep baseDelay s1) of
               (Inr v, s2) \<Rightarrow> (Inr v, s2)
             | (Inl e2, s2) \<Rightarrow>
                 if \<not> isRateLimitError e2 then (Inl e2, s2)
                 else
                   (case fn (sleep (baseDelay * 2) s2) of
                      (Inr v, s3) \<Rightarrow> (Inr v, s3)
                    | (Inl e3, s3) \<Rightarrow> (Inl e3, s3))))"
proof -
  have last: "retryLoop fn 3 baseDelay 2 le s' =
      (case fn s' of (Inr v, s3) \<Rightarrow> (Inr v, s3) | (Inl e3, s3) \<Rightarrow> (Inl e3, s3))" for le s'
  proof (cases "fn s'")
    case (Pair r s3)
    show ?thesis
    proof (cases r)
      case (Inl e)
      show ?thesis
      proof (cases "isRateLimitError e")
        case True
        have "retryLoop fn 3 baseDelay 2 le s' = retryLoop fn 3 baseDelay (Suc 2) (Some e) s3"
          using retryLoop_retry [of 2 3 fn s' e s3 baseDelay le] Pair Inl True by simp
        then show ?thesis using Pair Inl by (simp add: retryLoop_done)
      next
        case False
        then show ?thesis using Pair Inl by (simp add: retryLoop_pass)
      qed
    next
      case (Inr v)
      then show ?thesis using Pair by (simp add: retryLoop_success)
    qed
  qed
  have mid: "retryLoop fn 3 baseDelay 1 le s' =
      (case fn s' of (Inr v, s2) \<Rightarrow> (Inr v, s2)
       | (Inl e2, s2) \<Rightarrow> if \<not> isRateLimitError e2 then (Inl e2, s2)
           else retryLoop fn 3 baseDelay 2 (Some e2) (sleep (baseDelay * 2) s2))" for le s'
  proof (cases "fn s'")
    case (Pair r s2)
    show ?thesis
    proof (cases r)
      case (Inl e)
      show ?thesis
      proof (cases "isRateLimitError e")
        case True
        have "retryLoop fn 3 baseDelay 1 le s' =
            retryLoop fn 3 baseDelay (Suc 1) (Some e) (sleep (baseDelay * 2 ^ 1) s2)"
          using retryLoop_retry [of 1 3 fn s' e s2 baseDelay le] Pair Inl True by simp
        then show ?thesis using Pair Inl True by (simp add: numeral_2_eq_2)
      next
        case False
        then show ?thesis using Pair Inl by (simp add: retryLoop_pass)
      qed
    next
      case (Inr v)
      then show ?thesis using Pair by (simp add: retryLoop_success)
    qed
  qed
  have first: "retryLoop fn 3 baseDelay 0 le s =
      (case fn s of (Inr v, s1) \<Rightarrow> (Inr v, s1)
       | (Inl e1, s1) \<Rightarrow> if \<not> isRateLimitError e1 then (Inl e1, s1)
           else retryLoop fn 3 baseDelay 1 (Some e1) (sleep baseDelay s1))" for le
  proof (cases "fn s")
    case (Pair r s1)
    show ?thesis
    proof (cases r)
      case (Inl e)
      show ?thesis
      proof (cases "isRateLimitError e")
        case True
        have "retryLoop fn 3 baseDelay 0 le s =
            retryLoop fn 3 baseDelay (Suc 0) (Some e) (sleep (baseDelay * 2 ^ 0) s1)"
          using retryLoop_retry [of 0 3 fn s e s1 baseDelay le] Pair Inl True by simp
        then show ?thesis using Pair Inl True by simp
      next
        case False
        then show ?thesis using Pair Inl by (simp add: retryLoop_pass)
      qed
    next
      case (Inr v)
      then show ?thesis using Pair by (simp add: retryLoop_success)
    qed
  qed
  show ?thesis
    unfolding retryWithBackoff_def first mid last ..
qed

lemma retryLoop_trace:
  assumes fn_slept: "\<And>s. slept (snd (fn s)) = slept s"
    and fn_cnt: "\<And>s. cnt (snd (fn s)) = Suc (cnt s)"
    and sleep_cnt: "\<And>d s. cnt (sleep d s) = cnt s"
  shows "a < m \<Longrightarrow>
    \<exists>k. a \<le> k \<and> k < m
      \<and> slept (snd (retryLoop fn m b a le s)) = slept s @ map (\<lambda>i. b * 2 ^ i) [a..<k]
      \<and> cnt (snd (retryLoop fn m b a le s)) = cnt s + Suc (k - a)
      \<and> (\<forall>e. fst (retryLoop fn m b a le s) = Inl e \<and> isRateLimitError e \<longrightarrow> Suc k = m)"
proof (induction "m - a" arbitrary: a le s)
  case 0
  then show ?case by simp
next
  case (Suc n)
  obtain r s1 where fs: "fn s = (r, s1)" by (cases "fn s")
  have s1: "slept s1 = slept s" "cnt s1 = Suc (cnt s)"
    using fn_slept [of s] fn_cnt [of s] fs by simp_all
  show ?case
  proof (cases r)
    case (Inr v)
    then have "retryLoop fn m b a le s = (Inr v, s1)"
      using fs Suc.prems by (simp add: retryLoop_success)
    then show ?thesis using s1 Suc.prems by (intro exI [of _ a]) simp
  next
    case (Inl e)
    show ?thesis
    proof (cases "isRateLimitError e")
      case False
      then have "retryLoop fn m b a le s = (Inl e, s1)"
        using fs Inl Suc.prems by (simp add: retryLoop_pass)
      then show ?thesis using s1 Suc.prems False by (intro exI [of _ a]) simp
    next
      case True
      note step = retryLoop_retry [OF Suc.prems, of fn s e s1 b le, OF fs [unfolded Inl] True]
      show ?thesis
      proof (cases "Suc a < m")
        case False
        then have eq: "Suc a = m" using Suc.prems by simp
        then have "retryLoop fn m b a le s = (Inl e, s1)"
          using step by (simp add: retryLoop_done)
        then show ?thesis using s1 Suc.prems eq by (intro exI [of _ a]) simp
      next
        case lt: True
        then have am: "a < m - 1" by simp
        let ?s2 = "sleep (b * 2 ^ a) s1"
        have eq: "retryLoop fn m b a le s = retryLoop fn m b (Suc a) (Some e) ?s2"
          using step am by simp
        have "n = m - Suc a" using Suc.hyps(2) by simp
        from Suc.hyps(1) [OF this lt, of "Some e" ?s2]
        obtain k where k: "Suc a \<le> k" "k < m"
          "slept (snd (retryLoop fn m b (Suc a) (Some e) ?s2)) = slept ?s2 @ map (\<lambda>i. b * 2 ^ i) [Suc a..<k]"
          "cnt (snd (retryLoop fn m b (Suc a) (Some e) ?s2)) = cnt ?s2 + Suc (k - Suc a)"
          "\<forall>e'. fst (retryLoop fn m b (Suc a) (Some e) ?s2) = Inl e' \<and> isRateLimitError e' \<longrightarrow> Suc k = m"
          by blast
        have sl: "slept ?s2 = slept s @ [b * 2 ^ a]"
          using s1 by (simp add: sleep_def)
        have up: "[a..<k] = a # [Suc a..<k]"
          using k(1) by (simp add: upt_conv_Cons)
        have "slept (snd (retryLoop fn m b a le s)) = slept s @ map (\<lambda>i. b * 2 ^ i) [a..<k]"
          using k(3) sl eq up by simp
        moreover have "cnt (snd (retryLoop fn m b a le s)) = cnt s + Suc (k - a)"
          using k(1,4) eq s1 sleep_cnt [of "b * 2 ^ a" s1] by simp
        ultimately show ?thesis
          using k(1,2,5) eq by (intro exI [of _ k]) simp
      qed
    qed
  qed
qed

lemma retryWithBackoff_first_success:
  "0 < m \<Longrightarrow> fn s = (Inr v, s1) \<Longrightarrow> retryWithBackoff fn m b s = (Inr v, s1)"
  by (simp add: retryWithBackoff_def retryLoop_success)

lemma retryWithBackoff_pass:
  "0 < m \<Longrightarrow> fn s = (Inl e, s1) \<Longrightarrow> \<not> isRateLimitError e
   \<Longrightarrow> retryWithBackoff fn m b s = (Inl e, s1)"
  by (simp add: retryWithBackoff_def retryLoop_pass)

text \<open>
  C8. With its defaults (3 attempts, base 1000) the wrapper calls the function, returns
  a success or passes any error that is not a rate-limit response through at once, and
  only after a rate-limit response sleeps 1000 and calls again, then sleeps 2000 and
  calls a third and last time, whose error it rethrows without sleeping. For every
  attempt cap and base: a first success is returned and a first error that is not a
  rate-limit response (a conflict response with status 409, say) is passed through with
  the state of that one attempt; and when each attempt counts once and does not sleep
  itself, the wrapper makes \<open>k + 1 \<le> cap\<close> attempts and sleeps \<open>base * 2 ^ a\<close> after
  attempt \<open>a\<close> for \<open>a < k\<close>, making all \<open>cap\<close> attempts when it ends in a rate-limit error.
\<close>

theorem retryWithBackoff_policy:
  "retryWithBackoff fn 3 1000 s =
     (case fn s of
        (Inr v, s1) \<Rightarrow> (Inr v, s1)
      | (Inl e1, s1) \<Rightarrow>
          if \<not> isRateLimitError e1 then (Inl e1, s1)
          else
            (case fn (sleep 1000 s1) of
               (Inr v, s2) \<Rightarrow> (Inr v, s2)
             | (Inl e2, s2) \<Rightarrow>
                 if \<not> isRateLimitError e2 then (Inl e2, s2)
                 else
                   (case fn (sleep 2000 s2) of
                      (Inr v, s3) \<Rightarrow> (Inr v, s3)
                    | (Inl e3, s3) \<Rightarrow> (Inl e3, s3))))
   \<and> (0 < m \<and> fn s = (Inr v, s') \<longrightarrow> retryWithBackoff fn m b s = (Inr v, s'))
   \<and> (0 < m \<and> fn s = (Inl e, s') \<and> \<not> isRateLimitError e \<longrightarrow>
        retryWithBackoff fn m b s = (Inl e, s'))
   \<and> (0 < m \<and> (\<forall>s. slept (snd (fn s)) = slept s) \<and> (\<forall>s. cnt (snd (fn s)) = Suc (cnt s))
        \<and> (\<forall>d s. cnt (sleep d s) = cnt s) \<longrightarrow>
        (\<exists>k<m. slept (snd (retryWithBackoff fn m b s)) = slept s @ map (\<lambda>a. b * 2 ^ a) [0..<k]
           \<and> cnt (snd (retryWithBackoff fn m b s)) = cnt s + Suc k
           \<and> (\<forall>e. fst (retryWithBackoff fn m b s) = Inl e \<and> isRateLimitError e \<longrightarrow> Suc k = m)))"
proof -
  have 1: "retryWithBackoff fn 3 1000 s =
     (case fn s of
        (Inr v, s1) \<Rightarrow> (Inr v, s1)
      | (Inl e1, s1) \<Rightarrow>
          if \<not> isRateLimitError e1 then (Inl e1, s1)
          else
            (case fn (sleep 1000 s1) of
               (Inr v, s2) \<Rightarrow> (Inr v, s2)
             | (Inl e2, s2) \<Rightarrow>
                 if \<not> isRateLimitError e2 then (Inl e2, s2)
                 else
                   (case fn (sleep 2000 s2) of
                      (Inr v, s3) \<Rightarrow> (Inr v, s3)
                    | (Inl e3, s3) \<Rightarrow> (Inl e3, s3))))"
  proof -
    have two: "(1000::int) * 2 = 2000" by simp
    show ?thesis
      by (rule retryWithBackoff_unfold3 [of fn 1000 s, unfolded two])
  qed
  have 4: "\<exists>k<m. slept (snd (retryWithBackoff fn m b s)) = slept s @ map (\<lambda>a. b * 2 ^ a) [0..<k]
           \<and> cnt (snd (retryWithBackoff fn m b s)) = cnt s + Suc k
           \<and> (\<forall>e. fst (retryWithBackoff fn m b s) = Inl e \<and> isRateLimitError e \<longrightarrow> Suc k = m)"
    if "0 < m" "\<forall>s. slept (snd (fn s)) = slept s" "\<forall>s. cnt (snd (fn s)) = Suc (cnt s)"
      "\<forall>d s. cnt (sleep d s) = cnt s"
    using retryLoop_trace [of fn cnt 0 m b None s] that
    unfolding retryWithBackoff_def by auto
  show ?thesis
    using 1 4 retryWithBackoff_first_success [of m fn s v s' b] retryWithBackoff_pass [of m fn s e s' b]
    by blast
qed


theorem retryWithBackoff_policy_witness:
  "fst (retryWithBackoff (apiCall (Request GET ''/jobs/job-1'' None)) 3 1000
          (initialWorld 0 (\<lambda>h. Inl (AxiosError (Some 429) (Some ''RATE_LIMIT_EXCEEDED'') ''429''))))
     = Inl (AxiosError (Some 429) (Some ''RATE_LIMIT_EXCEEDED'') ''429'')
   \<and> slept (snd (retryWithBackoff (apiCall (Request GET ''/jobs/job-1'' None)) 3 1000
          (initialWorld 0 (\<lambda>h. Inl (AxiosError (Some 429) (Some ''RATE_LIMIT_EXCEEDED'') ''429'')))))
     = [1000, 2000]
   \<and> length (calls (snd (retryWithBackoff (apiCall (Request GET ''/jobs/job-1'' None)) 3 1000
          (initialWorld 0 (\<lambda>h. Inl (AxiosError (Some 429) (Some ''RATE_LIMIT_EXCEEDED'') ''429''))))))
     = 3
   \<and> retryWithBackoff (apiCall (Request GET ''/jobs/job-1'' None)) 3 1000
          (initialWorld 0 (\<lambda>h. Inl (AxiosError (Some 409) (Some ''VERSION_CONFLICT'') ''409'')))
     = (Inl (AxiosError (Some 409) (Some ''VERSION_CONFLICT'') ''409''),
        (initialWorld 0 (\<lambda>h. Inl (AxiosError (Some 409) (Some ''VERSION_CONFLICT'') ''409'')))
          \<lparr>calls := [Request GET ''/jobs/job-1'' None]\<rparr>)"
proof -
  let ?req = "Request GET ''/jobs/job-1'' None"
  let ?rl = "AxiosError (Some 429) (Some ''RATE_LIMIT_EXCEEDED'') ''429''"
  let ?cf = "AxiosError (Some 409) (Some ''VERSION_CONFLICT'') ''409''"
  let ?w = "initialWorld 0 (\<lambda>h. Inl ?rl)"
  let ?w' = "initialWorld 0 (\<lambda>h. Inl ?cf)"
  have hyp: "0 < (3::nat) \<and> (\<forall>s. slept (snd (apiCall ?req s)) = slept s)
      \<and> (\<forall>s. length (calls (snd (apiCall ?req s))) = Suc (length (calls s)))
      \<and> (\<forall>d s. length (calls (sleep d s)) = length (calls s))"
    by (simp add: apiCall_def sleep_def)
  have first: "apiCall ?req ?w' = (Inl ?cf, ?w'\<lparr>calls := [?req]\<rparr>)" "\<not> isRateLimitError ?cf"
    by (simp_all add: apiCall_def initialWorld_def isRateLimitError_def)
  note th = retryWithBackoff_policy [where fn = "apiCall ?req" and cnt = "\<lambda>s. length (calls s)"
      and m = 3 and b = 1000]
  have "\<exists>k<3. slept (snd (retryWithBackoff (apiCall ?req) 3 1000 ?w)) = slept ?w @ map (\<lambda>a. 1000 * 2 ^ a) [0..<k]
      \<and> length (calls (snd (retryWithBackoff (apiCall ?req) 3 1000 ?w))) = length (calls ?w) + Suc k
      \<and> (\<forall>e. fst (retryWithBackoff (apiCall ?req) 3 1000 ?w) = Inl e \<and> isRateLimitError e \<longrightarrow> Suc k = 3)"
    using th [where s = ?w] hyp by blast
  moreover have "fst (retryWithBackoff (apiCall ?req) 3 1000 ?w) = Inl ?rl"
    using th [where s = ?w]
    by (simp add: apiCall_def sleep_def initialWorld_def isRateLimitError_def)
  moreover have "isRateLimitError ?rl" by (simp add: isRateLimitError_def)
  ultimately have "slept (snd (retryWithBackoff (apiCall ?req) 3 1000 ?w)) = [1000, 2000]
      \<and> length (calls (snd (retryWithBackoff (apiCall ?req) 3 1000 ?w))) = 3"
    by (auto simp: initialWorld_def numeral_3_eq_3 upt_rec)
  moreover have "retryWithBackoff (apiCall ?req) 3 1000 ?w' = (Inl ?cf, ?w'\<lparr>calls := [?req]\<rparr>)"
    using th [where s = ?w' and e = ?cf and s' = "?w'\<lparr>calls := [?req]\<rparr>"] first by simp
  ultimately show ?thesis
    using \<open>fst (retryWithBackoff (apiCall ?req) 3 1000 ?w) = Inl ?rl\<close> by simp
qed

section \<open>Properties of the push phase\<close>

text \<open>What the transport leaves alone: every field but \<^verbatim>\<open>calls\<close>, \<^verbatim>\<open>slept\<close> and \<^verbatim>\<open>clock\<close>.\<close>

lemma retryLoop_preserves:
  assumes fn: "\<And>s. f (snd (fn s)) = f s" and sl: "\<And>d s. f (sleep d s) = f s"
  shows "f (snd (retryLoop fn m b a le s)) = f s"
proof (induction "m - a" arbitrary: a le s)
  case 0
  then have "\<not> a < m" by simp
  then show ?case by (simp add: retryLoop_done)
next
  case (Suc n)
  then have lt: "a < m" by simp
  obtain r s1 where fs: "fn s = (r, s1)" by (cases "fn s")
  have s1: "f s1 = f s" using fn [of s] fs by simp
  show ?case
  proof (cases r)
    case (Inr v)
    then show ?thesis using fs lt s1 by (simp add: retryLoop_success)
  next
    case (Inl e)
    show ?thesis
    proof (cases "isRateLimitError e")
      case False
      then show ?thesis using fs Inl lt s1 by (simp add: retryLoop_pass)
    next
      case True
      have n: "n = m - Suc a" using Suc.hyps(2) by simp
      show ?thesis
        using retryLoop_retry [where fn = fn and s = s and baseDelay = b and lastErr = le,
            OF lt fs [unfolded Inl] True] Suc.hyps(1) [OF n] s1 sl
        by simp
    qed
  qed
qed

lemma processQueueItem_preserves:
  assumes "\<And>s c. f (s\<lparr>calls := c\<rparr>) = f s"
  shows "f (snd (processQueueItem item s)) = f s"
  by (simp add: processQueueItem_def apiCall_def discard_def assms split: SyncEntityType.splits sum.splits)

lemma push_attempts_preserve:
  assumes c: "\<And>s c. f (s\<lparr>calls := c\<rparr>) = f s" and sl: "\<And>d s. f (sleep d s) = f s"
  shows "f (snd (retryWithBackoff (processQueueItem item) m b s)) = f s"
  unfolding retryWithBackoff_def
  by (rule retryLoop_preserves) (simp_all add: processQueueItem_preserves c sl)

lemma push_attempts_queue [simp]:
  "sync_queue (snd (retryWithBackoff (processQueueItem item) m b s)) = sync_queue s"
  by (rule push_attempts_preserve) (simp_all add: sleep_def)

lemma push_attempts_jobs [simp]:
  "jobs (snd (retryWithBackoff (processQueueItem item) m b s)) = jobs s"
  by (rule push_attempts_preserve) (simp_all add: sleep_def)

lemma push_attempts_error [simp]:
  "error (snd (retryWithBackoff (processQueueItem item) m b s)) = error s"
  by (rule push_attempts_preserve) (simp_all add: sleep_def)

lemma handleConflictServerWins_queue [simp]:
  "sync_queue (handleConflictServerWins item s) = sync_queue s"
  by (simp add: handleConflictServerWins_def apiCall_def saveJob_def upsertJob_def
      split: sum.splits option.splits)

lemma handleConflictServerWins_error [simp]:
  "error (handleConflictServerWins item s) = error s"
  by (simp add: handleConflictServerWins_def apiCall_def saveJob_def upsertJob_def
      split: sum.splits option.splits)

text \<open>The four ways one iteration of the push loop ends.\<close>

lemma pushItem_cases:
  obtains (success) u s1 where "retryWithBackoff (processQueueItem item) 3 1000 s = (Inr u, s1)"
      "pushItem item s = (False, markItemSuccess (itemId item) s1)"
  | (conflict) e s1 where "retryWithBackoff (processQueueItem item) 3 1000 s = (Inl e, s1)"
      "isVersionConflict e"
      "pushItem item s = (False, removeFromQueue (itemId item) (handleConflictServerWins item s1))"
  | (rate_limited) e s1 where "retryWithBackoff (processQueueItem item) 3 1000 s = (Inl e, s1)"
      "\<not> isVersionConflict e" "isRateLimitError e" "pushItem item s = (True, s1)"
  | (failed) e s1 where "retryWithBackoff (processQueueItem item) 3 1000 s = (Inl e, s1)"
      "\<not> isVersionConflict e" "\<not> isRateLimitError e"
      "pushItem item s = (False, markItemFailed (itemId item) (errorMessage ''Unknown error'' e) s1)"
proof -
  obtain r s1 where w: "retryWithBackoff (processQueueItem item) 3 1000 s = (r, s1)"
    by (cases "retryWithBackoff (processQueueItem item) 3 1000 s")
  show thesis
  proof (cases r)
    case (Inr u)
    then show ?thesis using w success by (simp add: pushItem_def)
  next
    case (Inl e)
    then show ?thesis
      using w conflict [of e s1] rate_limited [of e s1] failed [of e s1]
      by (cases "isVersionConflict e"; cases "isRateLimitError e") (simp_all add: pushItem_def)
  qed
qed

lemma filter_id_failed:
  "i \<noteq> j \<Longrightarrow>
   filter (\<lambda>r. row_id r = i) (map (\<lambda>r. if row_id r = j then r\<lparr>retry_count := g r, last_error := h r\<rparr> else r) rows)
     = filter (\<lambda>r. row_id r = i) rows"
  by (induction rows) auto

lemma filter_id_removed:
  "i \<noteq> j \<Longrightarrow> filter (\<lambda>r. row_id r = i) (filter (\<lambda>r. row_id r \<noteq> j) rows) = filter (\<lambda>r. row_id r = i) rows"
  by (induction rows) auto

lemma markItemSuccess_filter:
  "i \<noteq> j \<Longrightarrow> filter (\<lambda>r. row_id r = i) (sync_queue (markItemSuccess j s))
     = filter (\<lambda>r. row_id r = i) (sync_queue s)"
  unfolding markItemSuccess_def by (simp del: filter_filter add: filter_id_removed)

lemma removeFromQueue_filter:
  "i \<noteq> j \<Longrightarrow> filter (\<lambda>r. row_id r = i) (sync_queue (removeFromQueue j s))
     = filter (\<lambda>r. row_id r = i) (sync_queue s)"
  unfolding removeFromQueue_def by (simp del: filter_filter add: filter_id_removed)

lemma markItemFailed_filter:
  "i \<noteq> j \<Longrightarrow> filter (\<lambda>r. row_id r = i) (sync_queue (markItemFailed j msg s))
     = filter (\<lambda>r. row_id r = i) (sync_queue s)"
  unfolding markItemFailed_def by (simp add: filter_id_failed)

lemma ids_failed:
  "row_id ` set (map (\<lambda>r. if row_id r = j then r\<lparr>retry_count := g r, last_error := h r\<rparr> else r) rows)
     = row_id ` set rows"
  by (induction rows) auto

lemma markItemFailed_ids:
  "row_id ` set (sync_queue (markItemFailed j msg s)) = row_id ` set (sync_queue s)"
proof -
  have "sync_queue (markItemFailed j msg s) =
      map (\<lambda>r. if row_id r = j then r\<lparr>retry_count := retry_count r + 1, last_error := Some msg\<rparr> else r)
        (sync_queue s)"
    by (simp add: markItemFailed_def)
  then show ?thesis
    by (simp only: ids_failed)
qed

text \<open>An iteration touches no row but the one of its item, and adds none.\<close>

lemma pushItem_frame:
  assumes "i \<noteq> itemId item"
  shows "filter (\<lambda>r. row_id r = i) (sync_queue (snd (pushItem item s)))
       = filter (\<lambda>r. row_id r = i) (sync_queue s)"
proof (cases rule: pushItem_cases [of item s])
  case (success u s1)
  have "sync_queue s1 = sync_queue s" using push_attempts_queue [of item 3 1000 s] success(1) by simp
  then show ?thesis using success(2) assms markItemSuccess_filter [of i "itemId item" s1]
    by (simp add: markItemSuccess_def)
next
  case (conflict e s1)
  have "sync_queue s1 = sync_queue s" using push_attempts_queue [of item 3 1000 s] conflict(1) by simp
  then show ?thesis using conflict(3) assms removeFromQueue_filter [of i "itemId item" "handleConflictServerWins item s1"]
    by (simp add: removeFromQueue_def)
next
  case (rate_limited e s1)
  have "sync_queue s1 = sync_queue s" using push_attempts_queue [of item 3 1000 s] rate_limited(1) by simp
  then show ?thesis using rate_limited(4) by simp
next
  case (failed e s1)
  have "sync_queue s1 = sync_queue s" using push_attempts_queue [of item 3 1000 s] failed(1) by simp
  then show ?thesis using failed(4) assms markItemFailed_filter [of i "itemId item" _ s1]
    by (simp add: markItemFailed_def)
qed

lemma pushItem_ids:
  "row_id ` set (sync_queue (snd (pushItem item s))) \<subseteq> row_id ` set (sync_queue s)"
proof (cases rule: pushItem_cases [of item s])
  case (success u s1)
  have "sync_queue s1 = sync_queue s" using push_attempts_queue [of item 3 1000 s] success(1) by simp
  then show ?thesis using success(2) by (auto simp: markItemSuccess_def)
next
  case (conflict e s1)
  have "sync_queue s1 = sync_queue s" using push_attempts_queue [of item 3 1000 s] conflict(1) by simp
  then show ?thesis using conflict(3) by (auto simp: removeFromQueue_def)
next
  case (rate_limited e s1)
  have "sync_queue s1 = sync_queue s" using push_attempts_queue [of item 3 1000 s] rate_limited(1) by simp
  then show ?thesis using rate_limited(4) by simp
next
  case (failed e s1)
  have "sync_queue s1 = sync_queue s" using push_attempts_queue [of item 3 1000 s] failed(1) by simp
  then show ?thesis using failed(4) markItemFailed_ids [of "itemId item" _ s1]
    by (simp add: markItemFailed_def)
qed

lemma pushItem_error: "error (snd (pushItem item s)) = error s"
proof (cases rule: pushItem_cases [of item s])
  case (success u s1)
  have "error s1 = error s" using push_attempts_error [of item 3 1000 s] success(1) by simp
  then show ?thesis using success(2) by (simp add: markItemSuccess_def)
next
  case (conflict e s1)
  have "error s1 = error s" using push_attempts_error [of item 3 1000 s] conflict(1) by simp
  then show ?thesis using conflict(3) by (simp add: removeFromQueue_def)
next
  case (rate_limited e s1)
  have "error s1 = error s" using push_attempts_error [of item 3 1000 s] rate_limited(1) by simp
  then show ?thesis using rate_limited(4) by simp
next
  case (failed e s1)
  have "error s1 = error s" using push_attempts_error [of item 3 1000 s] failed(1) by simp
  then show ?thesis using failed(4) by (simp add: markItemFailed_def)
qed

lemma pushLoop_append:
  "pushLoop (xs @ ys) s =
     (case pushLoop xs s of (True, s1) \<Rightarrow> (True, s1) | (False, s1) \<Rightarrow> pushLoop ys s1)"
  by (induction xs arbitrary: s) (auto split: prod.splits bool.splits)

lemma pushLoop_frame:
  "i \<notin> itemId ` set items \<Longrightarrow>
   filter (\<lambda>r. row_id r = i) (sync_queue (snd (pushLoop items s)))
     = filter (\<lambda>r. row_id r = i) (sync_queue s)"
proof (induction items arbitrary: s)
  case Nil
  then show ?case by simp
next
  case (Cons item rest)
  obtain b s1 where p: "pushItem item s = (b, s1)" by (cases "pushItem item s")
  have f: "filter (\<lambda>r. row_id r = i) (sync_queue s1) = filter (\<lambda>r. row_id r = i) (sync_queue s)"
    using pushItem_frame [of i item s] Cons.prems p by simp
  show ?case
    using p f Cons.IH [of s1] Cons.prems by (cases b) simp_all
qed

lemma pushLoop_ids:
  "row_id ` set (sync_queue (snd (pushLoop items s))) \<subseteq> row_id ` set (sync_queue s)"
proof (induction items arbitrary: s)
  case Nil
  then show ?case by simp
next
  case (Cons item rest)
  obtain b s1 where p: "pushItem item s = (b, s1)" by (cases "pushItem item s")
  have "row_id ` set (sync_queue s1) \<subseteq> row_id ` set (sync_queue s)"
    using pushItem_ids [of item s] p by simp
  then show ?case
    using p Cons.IH [of s1] by (cases b) auto
qed

lemma pushLoop_error: "error (snd (pushLoop items s)) = error s"
proof (induction items arbitrary: s)
  case Nil
  then show ?case by simp
next
  case (Cons item rest)
  obtain b s1 where p: "pushItem item s = (b, s1)" by (cases "pushItem item s")
  then show ?case
    using pushItem_error [of item s] Cons.IH [of s1] by (cases b) simp_all
qed

lemma pushChanges_error: "error (pushChanges s) = error s"
  by (simp add: pushChanges_def getNextQueueItems_def updatePendingCount_def getQueueCount_def
      pushLoop_error)

lemma processQueueItem_local:
  assumes "entityType item = Photo \<or> entityType item = Signature \<or> action item \<noteq> Update"
  shows "processQueueItem item s = (Inr (), s)"
  using assms by (cases "entityType item") (auto simp: processQueueItem_def)

text \<open>A failed attempt that is an HTTP error made exactly one request and changed nothing else.\<close>

lemma processQueueItem_http_error:
  assumes "processQueueItem item s = (Inl (AxiosError st cd m), s1)"
  shows "\<exists>req. s1 = s\<lparr>calls := calls s @ [req]\<rparr> \<and> remote s (calls s @ [req]) = Inl (AxiosError st cd m)"
  using assms
  by (cases "entityType item")
     (auto simp: processQueueItem_def apiCall_def discard_def split: if_splits sum.splits)

lemma pushLoop_removed:
  assumes pre: "pushLoop pre s0 = (False, s)"
    and gone: "itemId item \<notin> row_id ` set (sync_queue (snd (pushItem item s)))"
  shows "itemId item \<notin> row_id ` set (sync_queue (snd (pushLoop (pre @ item # post) s0)))"
proof -
  obtain b s1 where p: "pushItem item s = (b, s1)" by (cases "pushItem item s")
  have "row_id ` set (sync_queue (snd (pushLoop (pre @ item # post) s0))) \<subseteq> row_id ` set (sync_queue s1)"
    using pre p pushLoop_ids [of post s1] by (cases b) (simp_all add: pushLoop_append)
  then show ?thesis using gone p by auto
qed

text \<open>
  C10. For a queue item whose entity type is photo or signature, or whose action is not
  update, \<^verbatim>\<open>processQueueItem\<close> returns without a remote call (the state, its record of
  requests included, is unchanged), and the push loop marks the item success: its row is
  deleted, no request is made and nothing is slept for it, and once the loop has reached
  the item its row is absent when the loop ends.
\<close>

theorem pushItem_without_remote_call:
  assumes "entityType item = Photo \<or> entityType item = Signature \<or> action item \<noteq> Update"
  shows "processQueueItem item s = (Inr (), s)
    \<and> pushItem item s = (False, markItemSuccess (itemId item) s)
    \<and> calls (snd (pushItem item s)) = calls s
    \<and> slept (snd (pushItem item s)) = slept s
    \<and> sync_queue (snd (pushItem item s)) = filter (\<lambda>r. row_id r \<noteq> itemId item) (sync_queue s)
    \<and> (pushLoop pre s0 = (False, s) \<longrightarrow>
          pushLoop (pre @ item # post) s0 = pushLoop post (markItemSuccess (itemId item) s)
          \<and> itemId item \<notin> row_id ` set (sync_queue (snd (pushLoop (pre @ item # post) s0))))"
proof -
  have 1: "processQueueItem item s = (Inr (), s)"
    using assms by (rule processQueueItem_local)
  then have "retryWithBackoff (processQueueItem item) 3 1000 s = (Inr (), s)"
    by (simp add: retryWithBackoff_first_success)
  then have 2: "pushItem item s = (False, markItemSuccess (itemId item) s)"
    by (simp add: pushItem_def)
  have 3: "sync_queue (snd (pushItem item s)) = filter (\<lambda>r. row_id r \<noteq> itemId item) (sync_queue s)"
    using 2 by (simp add: markItemSuccess_def)
  have 4: "pushLoop (pre @ item # post) s0 = pushLoop post (markItemSuccess (itemId item) s)
      \<and> itemId item \<notin> row_id ` set (sync_queue (snd (pushLoop (pre @ item # post) s0)))"
    if pre: "pushLoop pre s0 = (False, s)"
  proof -
    have "itemId item \<notin> row_id ` set (sync_queue (snd (pushItem item s)))"
      unfolding 3 by auto
    then have "itemId item \<notin> row_id ` set (sync_queue (snd (pushLoop (pre @ item # post) s0)))"
      by (rule pushLoop_removed [OF pre])
    moreover have "pushLoop (pre @ item # post) s0 = pushLoop post (markItemSuccess (itemId item) s)"
      using pre 2 by (simp add: pushLoop_append)
    ultimately show ?thesis by simp
  qed
  have 5: "calls (snd (pushItem item s)) = calls s" "slept (snd (pushItem item s)) = slept s"
    using 2 by (simp_all add: markItemSuccess_def)
  show ?thesis
    using 1 2 3 4 5 by blast
qed

lemma retryWithBackoff_error_from_attempt:
  "retryWithBackoff fn 3 b s = (Inl e, s1) \<Longrightarrow> \<exists>s'. fn s' = (Inl e, s1)"
  unfolding retryWithBackoff_unfold3
  by (auto split: prod.splits sum.splits if_splits)

text \<open>
  C3. When the attempts of the transport wrapper for a queue item end in a
  version-conflict response, the loop runs the conflict resolver (for a job: one fetch
  of the job, applied to the local table when it succeeds; for another entity type
  nothing) and then deletes the row of the item, whatever the remote service answered
  to the fetch. Nothing else in the queue changes, nothing is slept after the conflict,
  the loop goes on with the next item, the deleted row is in no later batch, and it is
  absent when the loop ends. The wrapper returned right after the attempt that met the
  conflict; and an attempt that fails with a conflict response which is not also a
  rate-limit response (a response with status 409 never is) is the only attempt the
  wrapper makes from there: one request, no sleep, no retry.
\<close>

theorem pushItem_conflict_terminal:
  assumes "retryWithBackoff (processQueueItem item) 3 1000 s = (Inl e, s1)"
    and "isVersionConflict e"
  shows "pushItem item s = (False, removeFromQueue (itemId item) (handleConflictServerWins item s1))
    \<and> (\<exists>s'. processQueueItem item s' = (Inl e, s1))
    \<and> calls (snd (pushItem item s)) =
        calls s1 @ (if entityType item = Job then [Request GET (''/jobs/'' @ entityId item) None] else [])
    \<and> slept (snd (pushItem item s)) = slept s1
    \<and> sync_queue (snd (pushItem item s)) = filter (\<lambda>r. row_id r \<noteq> itemId item) (sync_queue s)
    \<and> itemId item \<notin> itemId ` set (fst (getNextQueueItems n (snd (pushItem item s))))
    \<and> (pushLoop pre s0 = (False, s) \<longrightarrow>
          pushLoop (pre @ item # post) s0 =
            pushLoop post (removeFromQueue (itemId item) (handleConflictServerWins item s1))
          \<and> itemId item \<notin> row_id ` set (sync_queue (snd (pushLoop (pre @ item # post) s0))))
    \<and> (processQueueItem item w = (Inl e', w') \<and> isVersionConflict e' \<and> \<not> isRateLimitError e' \<longrightarrow>
          retryWithBackoff (processQueueItem item) 3 1000 w = (Inl e', w')
          \<and> (\<exists>req. w' = w\<lparr>calls := calls w @ [req]\<rparr>))"
proof -
  have 1: "\<exists>s'. processQueueItem item s' = (Inl e, s1)"
    using assms(1) by (rule retryWithBackoff_error_from_attempt)
  have 2: "pushItem item s = (False, removeFromQueue (itemId item) (handleConflictServerWins item s1))"
    using assms by (simp add: pushItem_def)
  have 3: "calls (snd (pushItem item s)) =
        calls s1 @ (if entityType item = Job then [Request GET (''/jobs/'' @ entityId item) None] else [])"
    unfolding 2
    by (simp add: removeFromQueue_def handleConflictServerWins_def apiCall_def saveJob_def upsertJob_def
        split: sum.splits option.splits)
  have 4: "slept (snd (pushItem item s)) = slept s1"
    unfolding 2
    by (simp add: removeFromQueue_def handleConflictServerWins_def apiCall_def saveJob_def upsertJob_def
        split: sum.splits option.splits)
  have "sync_queue s1 = sync_queue s"
    using push_attempts_queue [of item 3 1000 s] assms(1) by simp
  then have 5: "sync_queue (snd (pushItem item s)) = filter (\<lambda>r. row_id r \<noteq> itemId item) (sync_queue s)"
    unfolding 2 by (simp add: removeFromQueue_def)
  have gone: "itemId item \<notin> row_id ` set (sync_queue (snd (pushItem item s)))"
    unfolding 5 by auto
  have 6: "itemId item \<notin> itemId ` set (fst (getNextQueueItems n (snd (pushItem item s))))"
  proof
    assume "itemId item \<in> itemId ` set (fst (getNextQueueItems n (snd (pushItem item s))))"
    then obtain x where x: "x \<in> set (fst (getNextQueueItems n (snd (pushItem item s))))"
      "itemId x = itemId item" by auto
    from x(1) obtain r where r: "x = rowToItem r"
      "r \<in> set (take n (sort_key (\<lambda>r. (- row_priority r, created_at r))
          (filter (\<lambda>r. retry_count r < 3) (sync_queue (snd (pushItem item s))))))"
      by (auto simp: getNextQueueItems_def)
    from r(2) have "r \<in> set (sync_queue (snd (pushItem item s)))"
      by (auto dest: in_set_takeD)
    then have "row_id r \<in> row_id ` set (sync_queue (snd (pushItem item s)))"
      by (rule imageI)
    moreover have "row_id r = itemId item"
      using x(2) r(1) by (simp add: rowToItem_def)
    ultimately show False using gone by simp
  qed
  have 7: "pushLoop (pre @ item # post) s0 =
            pushLoop post (removeFromQueue (itemId item) (handleConflictServerWins item s1))
          \<and> itemId item \<notin> row_id ` set (sync_queue (snd (pushLoop (pre @ item # post) s0)))"
    if pre: "pushLoop pre s0 = (False, s)"
  proof -
    have "itemId item \<notin> row_id ` set (sync_queue (snd (pushLoop (pre @ item # post) s0)))"
      using gone by (rule pushLoop_removed [OF pre])
    moreover have "pushLoop (pre @ item # post) s0 =
        pushLoop post (removeFromQueue (itemId item) (handleConflictServerWins item s1))"
      using pre 2 by (simp add: pushLoop_append)
    ultimately show ?thesis by simp
  qed
  have 8: "retryWithBackoff (processQueueItem item) 3 1000 w = (Inl e', w')
          \<and> (\<exists>req. w' = w\<lparr>calls := calls w @ [req]\<rparr>)"
    if a: "processQueueItem item w = (Inl e', w')" and c: "isVersionConflict e'"
      and nr: "\<not> isRateLimitError e'"
  proof -
    obtain st cd m where e': "e' = AxiosError st cd m"
      using c by (cases e') (simp_all add: isVersionConflict_def)
    have "\<exists>req. w' = w\<lparr>calls := calls w @ [req]\<rparr>"
      using processQueueItem_http_error [of item w st cd m w'] a e' by blast
    moreover have "retryWithBackoff (processQueueItem item) 3 1000 w = (Inl e', w')"
      using a nr by (simp add: retryWithBackoff_pass)
    ultimately show ?thesis by simp
  qed
  show ?thesis
    using 1 2 3 4 5 6 7 8 by blast
qed

lemma saveJobsLoop_error: "error (saveJobsLoop now js fromServer s) = error s"
  by (induction js arbitrary: s) (simp_all add: upsertJob_def split: option.splits)

lemma deleteJobs_error: "error (fold deleteJob ids s) = error s"
  by (induction ids arbitrary: s) (simp_all add: deleteJob_def)

lemma pull_attempts_error:
  "error (snd (retryWithBackoff (apiCall req) m b s)) = error s"
  unfolding retryWithBackoff_def
  by (rule retryLoop_preserves) (simp_all add: apiCall_def sleep_def)

lemma pullChanges_error: "error (snd (pullChanges s)) = error s"
proof -
  obtain r s1 where w: "retryWithBackoff (apiCall (pullRequest s)) 3 1000 s = (r, s1)"
    by (cases "retryWithBackoff (apiCall (pullRequest s)) 3 1000 s")
  have "error s1 = error s"
    using pull_attempts_error [of "pullRequest s" 3 1000 s] w by simp
  then show ?thesis
    using w
    by (cases r)
       (simp_all add: pullChanges_def Let_def saveJobs_def saveJobsLoop_error deleteJobs_error
          split: option.splits)
qed

text \<open>An iteration that does not pause the loop has deleted the row of its item or counted a failure on it.\<close>

lemma pushItem_outcome:
  assumes "pushItem item s = (False, s1)"
  shows "filter (\<lambda>r. row_id r = itemId item) (sync_queue s1) = []
    \<or> (\<exists>msg. filter (\<lambda>r. row_id r = itemId item) (sync_queue s1) =
          map (\<lambda>r. r\<lparr>retry_count := retry_count r + 1, last_error := Some msg\<rparr>)
            (filter (\<lambda>r. row_id r = itemId item) (sync_queue s)))"
proof (cases rule: pushItem_cases [of item s])
  case (success u s')
  have "sync_queue s' = sync_queue s" using push_attempts_queue [of item 3 1000 s] success(1) by simp
  then show ?thesis using success(2) assms by (auto simp: markItemSuccess_def)
next
  case (conflict e s')
  have "sync_queue s' = sync_queue s" using push_attempts_queue [of item 3 1000 s] conflict(1) by simp
  then show ?thesis using conflict(3) assms by (auto simp: removeFromQueue_def)
next
  case (rate_limited e s')
  then show ?thesis using assms by simp
next
  case (failed e s')
  have q: "sync_queue s' = sync_queue s" using push_attempts_queue [of item 3 1000 s] failed(1) by simp
  have "filter (\<lambda>r. row_id r = i) (map (\<lambda>r. if row_id r = i
            then r\<lparr>retry_count := retry_count r + 1, last_error := Some msg\<rparr> else r) rows)
      = map (\<lambda>r. r\<lparr>retry_count := retry_count r + 1, last_error := Some msg\<rparr>)
          (filter (\<lambda>r. row_id r = i) rows)" for i msg rows
    by (induction rows) auto
  then show ?thesis
    using failed(4) assms q by (auto simp: markItemFailed_def)
qed

lemma pushLoop_outcome:
  assumes "distinct (map itemId items)" and "pushLoop items s = (False, s1)" and "x \<in> set items"
  shows "filter (\<lambda>r. row_id r = itemId x) (sync_queue s1) = []
    \<or> (\<exists>msg. filter (\<lambda>r. row_id r = itemId x) (sync_queue s1) =
          map (\<lambda>r. r\<lparr>retry_count := retry_count r + 1, last_error := Some msg\<rparr>)
            (filter (\<lambda>r. row_id r = itemId x) (sync_queue s)))"
  using assms
proof (induction items arbitrary: s)
  case Nil
  then show ?case by simp
next
  case (Cons y ys)
  obtain b s' where p: "pushItem y s = (b, s')" by (cases "pushItem y s")
  have b: "b = False" and rest: "pushLoop ys s' = (False, s1)"
    using Cons.prems(2) p by (cases b; simp)+
  show ?case
  proof (cases "x = y")
    case True
    have "itemId x \<notin> itemId ` set ys" using Cons.prems(1) True by auto
    then have "filter (\<lambda>r. row_id r = itemId x) (sync_queue s1)
        = filter (\<lambda>r. row_id r = itemId x) (sync_queue s')"
      using pushLoop_frame [of "itemId x" ys s'] rest by simp
    then show ?thesis
      using pushItem_outcome [of y s s'] p b True by simp
  next
    case False
    then have x: "x \<in> set ys" using Cons.prems(3) by simp
    then have ne: "itemId x \<noteq> itemId y"
      using Cons.prems(1) by (auto simp: image_iff)
    have "filter (\<lambda>r. row_id r = itemId x) (sync_queue s')
        = filter (\<lambda>r. row_id r = itemId x) (sync_queue s)"
      using pushItem_frame [OF ne, of s] p by simp
    then show ?thesis
      using Cons.IH [OF _ rest x] Cons.prems(1) by simp
  qed
qed

lemma filter_id_marked:
  "filter (\<lambda>r. row_id r = i) (map (\<lambda>r. if row_id r = i
            then r\<lparr>retry_count := retry_count r + 1, last_error := Some msg\<rparr> else r) rows)
      = map (\<lambda>r. r\<lparr>retry_count := retry_count r + 1, last_error := Some msg\<rparr>)
          (filter (\<lambda>r. row_id r = i) rows)"
  by (induction rows) auto

text \<open>
  The row of an item of a batch that the loop went through, by the outcome of the
  attempts for that item: deleted after a success or a conflict, and with one more retry
  and the message of the error after any other failure.
\<close>

lemma pushLoop_item_outcome:
  assumes d: "distinct (map itemId (pre1 @ x # pre2))"
    and before: "pushLoop pre1 s = (False, sa)"
    and whole: "pushLoop (pre1 @ x # pre2) s = (False, s1)"
    and attempts: "retryWithBackoff (processQueueItem x) 3 1000 sa = (r, sb)"
  shows "case r of
      Inr u \<Rightarrow> pushItem x sa = (False, markItemSuccess (itemId x) sb)
        \<and> filter (\<lambda>r. row_id r = itemId x) (sync_queue s1) = []
    | Inl e \<Rightarrow>
        if isVersionConflict e
        then pushItem x sa = (False, removeFromQueue (itemId x) (handleConflictServerWins x sb))
          \<and> filter (\<lambda>r. row_id r = itemId x) (sync_queue s1) = []
        else \<not> isRateLimitError e
          \<and> pushItem x sa = (False, markItemFailed (itemId x) (errorMessage ''Unknown error'' e) sb)
          \<and> filter (\<lambda>r. row_id r = itemId x) (sync_queue s1) =
              map (\<lambda>r. r\<lparr>retry_count := retry_count r + 1,
                           last_error := Some (errorMessage ''Unknown error'' e)\<rparr>)
                (filter (\<lambda>r. row_id r = itemId x) (sync_queue s))"
proof -
  obtain b sx where p: "pushItem x sa = (b, sx)" by (cases "pushItem x sa")
  have b: "b = False" and rest: "pushLoop pre2 sx = (False, s1)"
    using whole before p by (cases b; simp add: pushLoop_append)+
  have "itemId x \<notin> itemId ` set pre2" using d by auto
  then have after: "filter (\<lambda>r. row_id r = itemId x) (sync_queue s1)
      = filter (\<lambda>r. row_id r = itemId x) (sync_queue sx)"
    using pushLoop_frame [of "itemId x" pre2 sx] rest by simp
  have "itemId x \<notin> itemId ` set pre1" using d by auto
  then have prior: "filter (\<lambda>r. row_id r = itemId x) (sync_queue sa)
      = filter (\<lambda>r. row_id r = itemId x) (sync_queue s)"
    using pushLoop_frame [of "itemId x" pre1 s] before by simp
  have q: "sync_queue sb = sync_queue sa"
    using push_attempts_queue [of x 3 1000 sa] attempts by simp
  show ?thesis
  proof (cases r)
    case (Inr u)
    then have "sx = markItemSuccess (itemId x) sb"
      using attempts p by (simp add: pushItem_def)
    then show ?thesis
      using Inr p b after by (simp add: markItemSuccess_def)
  next
    case (Inl e)
    show ?thesis
    proof (cases "isVersionConflict e")
      case True
      then have "sx = removeFromQueue (itemId x) (handleConflictServerWins x sb)"
        using attempts p Inl by (simp add: pushItem_def)
      then show ?thesis
        using Inl True p b after by (simp add: removeFromQueue_def)
    next
      case False
      have nr: "\<not> isRateLimitError e"
        using attempts p b Inl False by (auto simp: pushItem_def)
      then have sx: "sx = markItemFailed (itemId x) (errorMessage ''Unknown error'' e) sb"
        using attempts p Inl False by (simp add: pushItem_def)
      have "filter (\<lambda>r. row_id r = itemId x) (sync_queue sx) =
          map (\<lambda>r. r\<lparr>retry_count := retry_count r + 1,
                       last_error := Some (errorMessage ''Unknown error'' e)\<rparr>)
            (filter (\<lambda>r. row_id r = itemId x) (sync_queue sa))"
        unfolding sx by (simp add: markItemFailed_def filter_id_marked q)
      then show ?thesis
        using Inl False nr p b sx after prior by simp
    qed
  qed
qed

text \<open>
  C4. When the loop has gone through the earlier items of a batch without a pause and the
  attempts for the next item end in a rate-limit error (that is not classified as a
  conflict), the loop stops there: the state is the one the attempts left, in which
  the queue and the job table are as the earlier items left them; the rows of that item
  and of every later item of the batch are exactly as they were before the batch (not
  removed, no retry counted, no error stored). Every earlier item has been marked by the
  outcome of its own attempts: when they succeeded the loop called \<^verbatim>\<open>markItemSuccess\<close>
  and the row is gone; when they ended in a conflict the loop ran the resolver and
  \<^verbatim>\<open>removeFromQueue\<close> and the row is gone; when they ended in any other error, which was
  then no rate-limit error, the loop called \<^verbatim>\<open>markItemFailed\<close> with the message of that
  error and the row has one more retry and that message as its last error.
  \<^verbatim>\<open>pushChanges\<close> ends by refreshing the pending count, with the store's error as it
  was. A cycle whose pull did not throw ends with no error, whatever its push phase met.
\<close>

theorem pushLoop_rate_limit_pause:
  assumes "pushLoop pre s = (False, s1)"
    and "retryWithBackoff (processQueueItem item) 3 1000 s1 = (Inl e, s2)"
    and "isRateLimitError e"
    and "\<not> isVersionConflict e"
    and "distinct (map itemId (pre @ item # post))"
  shows "pushLoop (pre @ item # post) s = (True, s2)
    \<and> sync_queue s2 = sync_queue s1
    \<and> jobs s2 = jobs s1
    \<and> (\<forall>x \<in> set (item # post).
          filter (\<lambda>r. row_id r = itemId x) (sync_queue s2)
            = filter (\<lambda>r. row_id r = itemId x) (sync_queue s))
    \<and> (\<forall>x \<in> set pre.
          filter (\<lambda>r. row_id r = itemId x) (sync_queue s2) = []
          \<or> (\<exists>msg. filter (\<lambda>r. row_id r = itemId x) (sync_queue s2) =
                map (\<lambda>r. r\<lparr>retry_count := retry_count r + 1, last_error := Some msg\<rparr>)
                  (filter (\<lambda>r. row_id r = itemId x) (sync_queue s))))
    \<and> (pre = pre1 @ x # pre2 \<and> pushLoop pre1 s = (False, sa)
          \<and> retryWithBackoff (processQueueItem x) 3 1000 sa = (r, sb) \<longrightarrow>
          (case r of
             Inr u \<Rightarrow> pushItem x sa = (False, markItemSuccess (itemId x) sb)
               \<and> filter (\<lambda>r. row_id r = itemId x) (sync_queue s2) = []
           | Inl e' \<Rightarrow>
               if isVersionConflict e'
               then pushItem x sa = (False, removeFromQueue (itemId x) (handleConflictServerWins x sb))
                 \<and> filter (\<lambda>r. row_id r = itemId x) (sync_queue s2) = []
               else \<not> isRateLimitError e'
                 \<and> pushItem x sa = (False, markItemFailed (itemId x) (errorMessage ''Unknown error'' e') sb)
                 \<and> filter (\<lambda>r. row_id r = itemId x) (sync_queue s2) =
                     map (\<lambda>r. r\<lparr>retry_count := retry_count r + 1,
                                  last_error := Some (errorMessage ''Unknown error'' e')\<rparr>)
                       (filter (\<lambda>r. row_id r = itemId x) (sync_queue s))))
    \<and> error s2 = error s
    \<and> (fst (getNextQueueItems 10 s) = pre @ item # post \<longrightarrow>
          pushChanges s = updatePendingCount s2 \<and> error (pushChanges s) = error s)
    \<and> (networkStatus s0 = Online \<and> \<not> isSyncing s0
          \<and> fst (pullChanges (s0\<lparr>isSyncing := True, error := None\<rparr>)) = Inr () \<longrightarrow>
          error (startSync s0) = None)"
proof -
  have item: "pushItem item s1 = (True, s2)"
    using assms(2,3,4) by (simp add: pushItem_def)
  then have 1: "pushLoop (pre @ item # post) s = (True, s2)"
    using assms(1) by (simp add: pushLoop_append)
  have 2: "sync_queue s2 = sync_queue s1" "jobs s2 = jobs s1"
    using push_attempts_queue [of item 3 1000 s1] push_attempts_jobs [of item 3 1000 s1] assms(2)
    by simp_all
  have 3: "filter (\<lambda>r. row_id r = itemId x) (sync_queue s2)
            = filter (\<lambda>r. row_id r = itemId x) (sync_queue s)" if "x \<in> set (item # post)" for x
  proof -
    have "itemId x \<notin> itemId ` set pre" using assms(5) that by auto
    then show ?thesis
      using pushLoop_frame [of "itemId x" pre s] assms(1) 2 by simp
  qed
  have 4: "error s2 = error s"
    using pushLoop_error [of "pre @ item # post" s] 1 by simp
  have 7: "filter (\<lambda>r. row_id r = itemId x) (sync_queue s2) = []
          \<or> (\<exists>msg. filter (\<lambda>r. row_id r = itemId x) (sync_queue s2) =
                map (\<lambda>r. r\<lparr>retry_count := retry_count r + 1, last_error := Some msg\<rparr>)
                  (filter (\<lambda>r. row_id r = itemId x) (sync_queue s)))" if "x \<in> set pre" for x
  proof -
    have "distinct (map itemId pre)" using assms(5) by simp
    then show ?thesis
      using pushLoop_outcome [OF _ assms(1) that] 2(1) by simp
  qed
  have 8: "case r of
             Inr u \<Rightarrow> pushItem x sa = (False, markItemSuccess (itemId x) sb)
               \<and> filter (\<lambda>r. row_id r = itemId x) (sync_queue s2) = []
           | Inl e' \<Rightarrow>
               if isVersionConflict e'
               then pushItem x sa = (False, removeFromQueue (itemId x) (handleConflictServerWins x sb))
                 \<and> filter (\<lambda>r. row_id r = itemId x) (sync_queue s2) = []
               else \<not> isRateLimitError e'
                 \<and> pushItem x sa = (False, markItemFailed (itemId x) (errorMessage ''Unknown error'' e') sb)
                 \<and> filter (\<lambda>r. row_id r = itemId x) (sync_queue s2) =
                     map (\<lambda>r. r\<lparr>retry_count := retry_count r + 1,
                                  last_error := Some (errorMessage ''Unknown error'' e')\<rparr>)
                       (filter (\<lambda>r. row_id r = itemId x) (sync_queue s))"
    if split: "pre = pre1 @ x # pre2" and before: "pushLoop pre1 s = (False, sa)"
      and attempts: "retryWithBackoff (processQueueItem x) 3 1000 sa = (r, sb)"
  proof -
    have "distinct (map itemId pre)"
      using assms(5) by simp
    then have d: "distinct (map itemId (pre1 @ x # pre2))"
      unfolding split .
    have whole: "pushLoop (pre1 @ x # pre2) s = (False, s1)"
      using assms(1) split by simp
    show ?thesis
      using pushLoop_item_outcome [OF d before whole attempts] unfolding 2(1) .
  qed
  have 5: "pushChanges s = updatePendingCount s2"
    if "fst (getNextQueueItems 10 s) = pre @ item # post"
    using that 1 by (simp add: pushChanges_def getNextQueueItems_def)
  have 6: "error (startSync s0) = None"
    if h1: "networkStatus s0 = Online" and h2: "\<not> isSyncing s0"
      and h3: "fst (pullChanges (s0\<lparr>isSyncing := True, error := None\<rparr>)) = Inr ()"
  proof -
    obtain sp where sp: "pullChanges (s0\<lparr>isSyncing := True, error := None\<rparr>) = (Inr (), sp)"
      using h3 by (cases "pullChanges (s0\<lparr>isSyncing := True, error := None\<rparr>)") simp
    have "error sp = None"
      using pullChanges_error [of "s0\<lparr>isSyncing := True, error := None\<rparr>"] sp by simp
    then show ?thesis
      using h1 h2 sp
      by (simp add: startSync_def Let_def updatePendingCount_def getQueueCount_def pushChanges_error)
  qed
  show ?thesis
    using 1 2 3 4 5 6 7 8 pushChanges_error [of s] by blast
qed

lemma photoWorld_queue:
  "fst (getNextQueueItems 10 photoWorld) = [photoItem]"
  by (simp add: photoWorld_def offlineWorld_def run_ops_def addToQueue_def Let_def max_rowid_def
      initialWorld_def getNextQueueItems_def rowToItem_def photoItem_def)

theorem pushItem_without_remote_call_witness:
  "processQueueItem photoItem photoWorld = (Inr (), photoWorld)
   \<and> sync_queue (snd (pushItem photoItem photoWorld)) = []
   \<and> calls (snd (pushItem photoItem photoWorld)) = []
   \<and> sync_queue (pushChanges photoWorld) = []
   \<and> calls (pushChanges photoWorld) = []"
proof -
  have kind: "entityType photoItem = Photo \<or> entityType photoItem = Signature \<or> action photoItem \<noteq> Update"
    by (simp add: photoItem_def)
  note th = pushItem_without_remote_call [OF kind, of photoWorld "[]" photoWorld "[]"]
  have q: "sync_queue photoWorld =
      [\<lparr>row_id = 1, entity_type = Photo, entity_id = ''photo-1'', row_action = Create,
        row_payload = JObj [(''jobId'', JStr ''job-1'')], file_path = Some ''/path/to/photo.jpg'',
        retry_count = 0, last_error = None, row_priority = 0, created_at = 7\<rparr>]"
    "calls photoWorld = []"
    by (simp_all add: photoWorld_def offlineWorld_def run_ops_def addToQueue_def Let_def max_rowid_def
        initialWorld_def)
  have 1: "processQueueItem photoItem photoWorld = (Inr (), photoWorld)"
    using th by blast
  have item: "pushItem photoItem photoWorld = (False, markItemSuccess (itemId photoItem) photoWorld)"
    using th by blast
  have after: "sync_queue (markItemSuccess (itemId photoItem) photoWorld) = []"
    "calls (markItemSuccess (itemId photoItem) photoWorld) = []"
    by (simp_all add: markItemSuccess_def q photoItem_def)
  have 2: "sync_queue (snd (pushItem photoItem photoWorld)) = []"
    "calls (snd (pushItem photoItem photoWorld)) = []"
    unfolding item using after by simp_all
  have loop: "pushLoop [photoItem] photoWorld = (False, markItemSuccess (itemId photoItem) photoWorld)"
    unfolding pushLoop.simps item by simp
  have "pushChanges photoWorld = updatePendingCount (markItemSuccess (itemId photoItem) photoWorld)"
    using photoWorld_queue loop by (simp add: pushChanges_def getNextQueueItems_def)
  then have 3: "sync_queue (pushChanges photoWorld) = []" "calls (pushChanges photoWorld) = []"
    using after by (simp_all add: updatePendingCount_def getQueueCount_def)
  show ?thesis using 1 2 3 by simp
qed


lemma conflictWorld_eq:
  "conflictWorld reachable =
     \<lparr>sync_queue = [\<lparr>row_id = 1, entity_type = Job, entity_id = ''job-1'', row_action = Update,
        row_payload = examplePayload 2, file_path = None, retry_count = 0, last_error = None,
        row_priority = 0, created_at = 0\<rparr>],
      sync_queue_seq = 1,
      jobs = [''job-1'' \<mapsto> \<lparr>data = exampleJob 2 ''completed'', server_version = Some 2,
        local_version = 2, is_dirty = 1, last_synced_at = Some 0, job_created_at = 0\<rparr>],
      networkStatus = Unknown, isSyncing = False, lastSyncedAt = None, pendingCount = 0,
      conflicts = [], error = None, clock = 0, remote = conflictServer reachable, calls = [],
      slept = []\<rparr>"
  by (simp add: conflictWorld_def run_ops_def addToQueue_def Let_def max_rowid_def initialWorld_def
      saveJob_def upsertJob_def exampleJob_def)

lemma conflictWorld_attempt:
  "processQueueItem (exampleItem 1 ''job-1'' 0) (conflictWorld reachable) =
     (Inl versionConflict,
      (conflictWorld reachable)\<lparr>calls := [Request PATCH ''/jobs/job-1'' (Some (examplePayload 2))]\<rparr>)"
  by (simp add: conflictWorld_eq processQueueItem_def exampleItem_def apiCall_def discard_def
      conflictServer_def property_def examplePayload_def)

theorem pushItem_conflict_terminal_witness:
  "sync_queue (snd (pushItem (exampleItem 1 ''job-1'' 0) (conflictWorld True))) = []
   \<and> jobs (snd (pushItem (exampleItem 1 ''job-1'' 0) (conflictWorld True))) ''job-1'' =
       Some \<lparr>data = exampleJob 4 ''cancelled'', server_version = Some 4, local_version = 2,
             is_dirty = 0, last_synced_at = Some 0, job_created_at = 0\<rparr>
   \<and> calls (snd (pushItem (exampleItem 1 ''job-1'' 0) (conflictWorld True))) =
       [Request PATCH ''/jobs/job-1'' (Some (examplePayload 2)), Request GET ''/jobs/job-1'' None]
   \<and> slept (snd (pushItem (exampleItem 1 ''job-1'' 0) (conflictWorld True))) = []
   \<and> sync_queue (snd (pushItem (exampleItem 1 ''job-1'' 0) (conflictWorld False))) = []
   \<and> jobs (snd (pushItem (exampleItem 1 ''job-1'' 0) (conflictWorld False))) ''job-1'' =
       Some \<lparr>data = exampleJob 2 ''completed'', server_version = Some 2, local_version = 2,
             is_dirty = 1, last_synced_at = Some 0, job_created_at = 0\<rparr>"
proof -
  let ?item = "exampleItem 1 ''job-1'' 0"
  let ?patch = "Request PATCH ''/jobs/job-1'' (Some (examplePayload 2))"
  have conflict: "isVersionConflict versionConflict" "\<not> isRateLimitError versionConflict"
    by (simp_all add: isVersionConflict_def isRateLimitError_def versionConflict_def)
  have attempts: "retryWithBackoff (processQueueItem ?item) 3 1000 (conflictWorld r) =
      (Inl versionConflict, (conflictWorld r)\<lparr>calls := [?patch]\<rparr>)" for r
    using retryWithBackoff_pass [where fn = "processQueueItem ?item" and m = 3 and b = 1000,
        OF _ conflictWorld_attempt conflict(2)]
    by simp
  note th = pushItem_conflict_terminal [OF attempts conflict(1), where pre = "[]" and post = "[]"]
  have item: "pushItem ?item (conflictWorld r) =
      (False, removeFromQueue (itemId ?item)
         (handleConflictServerWins ?item ((conflictWorld r)\<lparr>calls := [?patch]\<rparr>)))" for r
    using th [of r] by blast
  have q: "sync_queue (snd (pushItem ?item (conflictWorld r))) = []" for r
  proof -
    have "sync_queue (snd (pushItem ?item (conflictWorld r))) =
        filter (\<lambda>x. row_id x \<noteq> itemId ?item) (sync_queue (conflictWorld r))"
      using th [of r] by blast
    then show ?thesis by (simp add: conflictWorld_eq exampleItem_def)
  qed
  have c: "calls (snd (pushItem ?item (conflictWorld True))) = [?patch, Request GET ''/jobs/job-1'' None]"
  proof -
    have "calls (snd (pushItem ?item (conflictWorld True))) =
        calls ((conflictWorld True)\<lparr>calls := [?patch]\<rparr>)
          @ (if entityType ?item = Job then [Request GET (''/jobs/'' @ entityId ?item) None] else [])"
      using th [of True] by blast
    then show ?thesis by (simp add: exampleItem_def)
  qed
  have sl: "slept (snd (pushItem ?item (conflictWorld True))) = []"
  proof -
    have "slept (snd (pushItem ?item (conflictWorld True))) =
        slept ((conflictWorld True)\<lparr>calls := [?patch]\<rparr>)"
      using th [of True] by blast
    then show ?thesis by (simp add: conflictWorld_eq)
  qed
  have j1: "jobs (snd (pushItem ?item (conflictWorld True))) ''job-1'' =
       Some \<lparr>data = exampleJob 4 ''cancelled'', server_version = Some 4, local_version = 2,
             is_dirty = 0, last_synced_at = Some 0, job_created_at = 0\<rparr>"
    unfolding item
    by (simp add: conflictWorld_eq removeFromQueue_def handleConflictServerWins_def exampleItem_def
        apiCall_def conflictServer_def noData_def saveJob_def upsertJob_def exampleJob_def)
  have j2: "jobs (snd (pushItem ?item (conflictWorld False))) ''job-1'' =
       Some \<lparr>data = exampleJob 2 ''completed'', server_version = Some 2, local_version = 2,
             is_dirty = 1, last_synced_at = Some 0, job_created_at = 0\<rparr>"
    unfolding item
    by (simp add: conflictWorld_eq removeFromQueue_def handleConflictServerWins_def exampleItem_def
        apiCall_def conflictServer_def noData_def saveJob_def upsertJob_def exampleJob_def)
  show ?thesis using q [of True] q [of False] c sl j1 j2 by simp
qed


lemma threeJobs_eq:
  "threeJobs srv =
     \<lparr>sync_queue =
        [\<lparr>row_id = 1, entity_type = Job, entity_id = ''job-a'', row_action = Update,
          row_payload = examplePayload 2, file_path = None, retry_count = 0, last_error = None,
          row_priority = 10, created_at = 0\<rparr>,
         \<lparr>row_id = 2, entity_type = Job, entity_id = ''job-b'', row_action = Update,
          row_payload = examplePayload 2, file_path = None, retry_count = 0, last_error = None,
          row_priority = 5, created_at = 0\<rparr>,
         \<lparr>row_id = 3, entity_type = Job, entity_id = ''job-c'', row_action = Update,
          row_payload = examplePayload 2, file_path = None, retry_count = 0, last_error = None,
          row_priority = 0, created_at = 0\<rparr>],
      sync_queue_seq = 3, jobs = Map.empty, networkStatus = Unknown, isSyncing = False,
      lastSyncedAt = None, pendingCount = 0, conflicts = [], error = None, clock = 0,
      remote = srv, calls = [], slept = []\<rparr>"
  by (simp add: threeJobs_def run_ops_def addToQueue_def Let_def max_rowid_def initialWorld_def)

lemma threeJobs_batch:
  "fst (getNextQueueItems 10 (threeJobs srv)) =
     [exampleItem 1 ''job-a'' 10] @ exampleItem 2 ''job-b'' 5 # [exampleItem 3 ''job-c'' 0]"
  by (simp add: threeJobs_eq getNextQueueItems_def rowToItem_def exampleItem_def less_eq_prod_def)

lemma threeJobs_first:
  "pushLoop [exampleItem 1 ''job-a'' 10] (threeJobs limitingServer) =
     (False, markItemSuccess 1
        ((threeJobs limitingServer)\<lparr>calls := [Request PATCH ''/jobs/job-a'' (Some (examplePayload 2))]\<rparr>))"
  by (simp add: threeJobs_eq pushItem_def retryWithBackoff_unfold3 processQueueItem_def
      exampleItem_def apiCall_def discard_def limitingServer_def)

lemma threeJobs_second:
  "retryWithBackoff (processQueueItem (exampleItem 2 ''job-b'' 5)) 3 1000
     (markItemSuccess 1
        ((threeJobs limitingServer)\<lparr>calls := [Request PATCH ''/jobs/job-a'' (Some (examplePayload 2))]\<rparr>))
   = (Inl rateLimited,
      (markItemSuccess 1 (threeJobs limitingServer))
        \<lparr>calls := [Request PATCH ''/jobs/job-a'' (Some (examplePayload 2)),
                   Request PATCH ''/jobs/job-b'' (Some (examplePayload 2)),
                   Request PATCH ''/jobs/job-b'' (Some (examplePayload 2)),
                   Request PATCH ''/jobs/job-b'' (Some (examplePayload 2))],
         slept := [1000, 2000], clock := 3000\<rparr>)"
  by (simp add: threeJobs_eq markItemSuccess_def retryWithBackoff_unfold3 processQueueItem_def
      exampleItem_def apiCall_def discard_def limitingServer_def sleep_def isRateLimitError_def
      rateLimited_def)

lemma threeJobs_first_attempts:
  "retryWithBackoff (processQueueItem (exampleItem 1 ''job-a'' 10)) 3 1000 (threeJobs failingServer) =
     (Inl serverError,
      (threeJobs failingServer)\<lparr>calls := [Request PATCH ''/jobs/job-a'' (Some (examplePayload 2))]\<rparr>)"
  by (simp add: threeJobs_eq retryWithBackoff_unfold3 processQueueItem_def exampleItem_def
      apiCall_def discard_def failingServer_def serverError_def isRateLimitError_def)

lemma threeJobs_first_failed:
  "pushLoop [exampleItem 1 ''job-a'' 10] (threeJobs failingServer) =
     (False, markItemFailed 1 ''Request failed with status code 500''
        ((threeJobs failingServer)\<lparr>calls := [Request PATCH ''/jobs/job-a'' (Some (examplePayload 2))]\<rparr>))"
proof -
  have "pushItem (exampleItem 1 ''job-a'' 10) (threeJobs failingServer) =
      (False, markItemFailed (itemId (exampleItem 1 ''job-a'' 10))
         (errorMessage ''Unknown error'' serverError)
         ((threeJobs failingServer)\<lparr>calls := [Request PATCH ''/jobs/job-a'' (Some (examplePayload 2))]\<rparr>))"
    unfolding pushItem_def threeJobs_first_attempts
    by (simp add: serverError_def isVersionConflict_def isRateLimitError_def)
  moreover have "itemId (exampleItem 1 ''job-a'' 10) = 1"
    "errorMessage ''Unknown error'' serverError = ''Request failed with status code 500''"
    by (simp_all add: exampleItem_def errorMessage_def serverError_def)
  ultimately show ?thesis
    unfolding pushLoop.simps by simp
qed

lemma threeJobs_second_after_failure:
  "retryWithBackoff (processQueueItem (exampleItem 2 ''job-b'' 5)) 3 1000
     (markItemFailed 1 ''Request failed with status code 500''
        ((threeJobs failingServer)\<lparr>calls := [Request PATCH ''/jobs/job-a'' (Some (examplePayload 2))]\<rparr>))
   = (Inl rateLimited,
      (markItemFailed 1 ''Request failed with status code 500'' (threeJobs failingServer))
        \<lparr>calls := [Request PATCH ''/jobs/job-a'' (Some (examplePayload 2)),
                   Request PATCH ''/jobs/job-b'' (Some (examplePayload 2)),
                   Request PATCH ''/jobs/job-b'' (Some (examplePayload 2)),
                   Request PATCH ''/jobs/job-b'' (Some (examplePayload 2))],
         slept := [1000, 2000], clock := 3000\<rparr>)"
  by (simp add: threeJobs_eq markItemFailed_def retryWithBackoff_unfold3 processQueueItem_def
      exampleItem_def apiCall_def discard_def failingServer_def sleep_def isRateLimitError_def
      rateLimited_def)

theorem pushLoop_rate_limit_pause_witness:
  "map row_id (sync_queue (pushChanges (threeJobs limitingServer))) = [2, 3]
   \<and> map retry_count (sync_queue (pushChanges (threeJobs limitingServer))) = [0, 0]
   \<and> map last_error (sync_queue (pushChanges (threeJobs limitingServer))) = [None, None]
   \<and> length (calls (pushChanges (threeJobs limitingServer))) = 4
   \<and> slept (pushChanges (threeJobs limitingServer)) = [1000, 2000]
   \<and> pendingCount (pushChanges (threeJobs limitingServer)) = 2
   \<and> error (pushChanges (threeJobs limitingServer)) = None
   \<and> map row_id (sync_queue (pushChanges (threeJobs failingServer))) = [1, 2, 3]
   \<and> map retry_count (sync_queue (pushChanges (threeJobs failingServer))) = [1, 0, 0]
   \<and> map last_error (sync_queue (pushChanges (threeJobs failingServer))) =
        [Some ''Request failed with status code 500'', None, None]
   \<and> length (calls (pushChanges (threeJobs failingServer))) = 4
   \<and> error (pushChanges (threeJobs failingServer)) = None"
proof -
  let ?w = "threeJobs limitingServer"
  let ?f = "threeJobs failingServer"
  let ?pa = "Request PATCH ''/jobs/job-a'' (Some (examplePayload 2))"
  let ?pb = "Request PATCH ''/jobs/job-b'' (Some (examplePayload 2))"
  let ?msg = "''Request failed with status code 500''"
  have rl: "isRateLimitError rateLimited" "\<not> isVersionConflict rateLimited"
    by (simp_all add: isVersionConflict_def isRateLimitError_def rateLimited_def)
  have ids: "distinct (map itemId ([exampleItem 1 ''job-a'' 10] @ exampleItem 2 ''job-b'' 5 # [exampleItem 3 ''job-c'' 0]))"
    by (simp add: exampleItem_def)
  note th = pushLoop_rate_limit_pause [OF threeJobs_first threeJobs_second rl ids]
  have "pushChanges ?w =
      updatePendingCount ((markItemSuccess 1 ?w)
        \<lparr>calls := [?pa, ?pb, ?pb, ?pb], slept := [1000, 2000], clock := 3000\<rparr>)"
    using th threeJobs_batch [of limitingServer] by blast
  then have success: "map row_id (sync_queue (pushChanges ?w)) = [2, 3]
      \<and> map retry_count (sync_queue (pushChanges ?w)) = [0, 0]
      \<and> map last_error (sync_queue (pushChanges ?w)) = [None, None]
      \<and> length (calls (pushChanges ?w)) = 4
      \<and> slept (pushChanges ?w) = [1000, 2000]
      \<and> pendingCount (pushChanges ?w) = 2
      \<and> error (pushChanges ?w) = None"
    by (simp add: updatePendingCount_def getQueueCount_def markItemSuccess_def threeJobs_eq)
  let ?s2 = "(markItemFailed 1 ?msg ?f)\<lparr>calls := [?pa, ?pb, ?pb, ?pb], slept := [1000, 2000], clock := 3000\<rparr>"
  note tf = pushLoop_rate_limit_pause [OF threeJobs_first_failed threeJobs_second_after_failure rl ids,
      where ?pre1.0 = "[]" and x = "exampleItem 1 ''job-a'' 10" and ?pre2.0 = "[]" and sa = ?f
        and r = "Inl serverError" and sb = "?f\<lparr>calls := [?pa]\<rparr>"]
  have pushed: "pushChanges ?f = updatePendingCount ?s2"
    using tf threeJobs_batch [of failingServer] by blast
  have nc: "\<not> isVersionConflict serverError"
    by (simp add: serverError_def isVersionConflict_def)
  have "case Inl serverError of
      Inr (u::unit) \<Rightarrow> pushItem (exampleItem 1 ''job-a'' 10) ?f =
          (False, markItemSuccess (itemId (exampleItem 1 ''job-a'' 10)) (?f\<lparr>calls := [?pa]\<rparr>))
        \<and> filter (\<lambda>r. row_id r = itemId (exampleItem 1 ''job-a'' 10)) (sync_queue ?s2) = []
    | Inl e' \<Rightarrow>
        if isVersionConflict e'
        then pushItem (exampleItem 1 ''job-a'' 10) ?f =
            (False, removeFromQueue (itemId (exampleItem 1 ''job-a'' 10))
               (handleConflictServerWins (exampleItem 1 ''job-a'' 10) (?f\<lparr>calls := [?pa]\<rparr>)))
          \<and> filter (\<lambda>r. row_id r = itemId (exampleItem 1 ''job-a'' 10)) (sync_queue ?s2) = []
        else \<not> isRateLimitError e'
          \<and> pushItem (exampleItem 1 ''job-a'' 10) ?f =
              (False, markItemFailed (itemId (exampleItem 1 ''job-a'' 10))
                 (errorMessage ''Unknown error'' e') (?f\<lparr>calls := [?pa]\<rparr>))
          \<and> filter (\<lambda>r. row_id r = itemId (exampleItem 1 ''job-a'' 10)) (sync_queue ?s2) =
              map (\<lambda>r. r\<lparr>retry_count := retry_count r + 1,
                           last_error := Some (errorMessage ''Unknown error'' e')\<rparr>)
                (filter (\<lambda>r. row_id r = itemId (exampleItem 1 ''job-a'' 10)) (sync_queue ?f))"
  proof -
    have "[exampleItem 1 ''job-a'' 10] = [] @ exampleItem 1 ''job-a'' 10 # []"
      "pushLoop [] ?f = (False, ?f)"
      by simp_all
    then show ?thesis
      using tf threeJobs_first_attempts by blast
  qed
  then have marked: "filter (\<lambda>r. row_id r = itemId (exampleItem 1 ''job-a'' 10)) (sync_queue ?s2) =
      map (\<lambda>r. r\<lparr>retry_count := retry_count r + 1,
                   last_error := Some (errorMessage ''Unknown error'' serverError)\<rparr>)
        (filter (\<lambda>r. row_id r = itemId (exampleItem 1 ''job-a'' 10)) (sync_queue ?f))"
    using nc by simp
  have failure: "map row_id (sync_queue (pushChanges ?f)) = [1, 2, 3]
      \<and> map retry_count (sync_queue (pushChanges ?f)) = [1, 0, 0]
      \<and> map last_error (sync_queue (pushChanges ?f)) = [Some ?msg, None, None]
      \<and> length (calls (pushChanges ?f)) = 4
      \<and> error (pushChanges ?f) = None"
    unfolding pushed
    by (simp add: updatePendingCount_def getQueueCount_def markItemFailed_def threeJobs_eq)
  show ?thesis
    using success failure by simp
qed

section \<open>The sync cursor and manual resolution\<close>

lemma pull_attempts_jobs:
  "jobs (snd (retryWithBackoff (apiCall req) m b s)) = jobs s"
  unfolding retryWithBackoff_def
  by (rule retryLoop_preserves) (simp_all add: apiCall_def sleep_def)

lemma pull_attempts_cursor:
  "lastSyncedAt (snd (retryWithBackoff (apiCall req) m b s)) = lastSyncedAt s"
  unfolding retryWithBackoff_def
  by (rule retryLoop_preserves) (simp_all add: apiCall_def sleep_def)

text \<open>
  C5. What the code does with \<^verbatim>\<open>lastSyncedAt\<close>: \<^verbatim>\<open>pullChanges\<close> sets it to the
  \<^verbatim>\<open>syncedAt\<close> of an applied pull response; when the pull is rate-limited it returns
  normally with the job table and the cursor untouched. \<^verbatim>\<open>startSync\<close> then runs the
  push phase and overwrites the cursor with the client's own clock, whatever the pull
  did: after every cycle whose pull did not throw, the cursor is the device time at the
  end of the cycle, not the server's \<^verbatim>\<open>syncedAt\<close>.
\<close>

theorem startSync_cursor_is_device_clock:
  assumes "networkStatus s = Online"
    and "\<not> isSyncing s"
    and "pullChanges (s\<lparr>isSyncing := True, error := None\<rparr>) = (Inr (), s1)"
  shows "lastSyncedAt (startSync s) = Some (clock (pushChanges s1))
    \<and> (\<forall>resp s'. retryWithBackoff (apiCall (pullRequest (s\<lparr>isSyncing := True, error := None\<rparr>))) 3 1000
                    (s\<lparr>isSyncing := True, error := None\<rparr>) = (Inr resp, s')
          \<longrightarrow> lastSyncedAt s1 = syncedAt resp)
    \<and> (\<forall>e s'. retryWithBackoff (apiCall (pullRequest (s\<lparr>isSyncing := True, error := None\<rparr>))) 3 1000
                    (s\<lparr>isSyncing := True, error := None\<rparr>) = (Inl e, s')
          \<longrightarrow> isRateLimitError e \<and> jobs s1 = jobs s \<and> lastSyncedAt s1 = lastSyncedAt s)"
proof -
  let ?s0 = "s\<lparr>isSyncing := True, error := None\<rparr>"
  have 1: "lastSyncedAt (startSync s) = Some (clock (pushChanges s1))"
    using assms by (simp add: startSync_def Let_def updatePendingCount_def getQueueCount_def)
  have 2: "lastSyncedAt s1 = syncedAt resp"
    if "retryWithBackoff (apiCall (pullRequest ?s0)) 3 1000 ?s0 = (Inr resp, s')" for resp s'
    using that assms(3) by (auto simp: pullChanges_def Let_def)
  have 3: "isRateLimitError e \<and> jobs s1 = jobs s \<and> lastSyncedAt s1 = lastSyncedAt s"
    if w: "retryWithBackoff (apiCall (pullRequest ?s0)) 3 1000 ?s0 = (Inl e, s')" for e s'
  proof -
    have "isRateLimitError e" "s1 = s'"
      using w assms(3) by (auto simp: pullChanges_def split: if_splits)
    moreover have "jobs s' = jobs ?s0" "lastSyncedAt s' = lastSyncedAt ?s0"
      using pull_attempts_jobs [of "pullRequest ?s0" 3 1000 ?s0]
        pull_attempts_cursor [of "pullRequest ?s0" 3 1000 ?s0] w by simp_all
    ultimately show ?thesis by simp
  qed
  show ?thesis using 1 2 3 by blast
qed

lemma onlineWorld_eq:
  "onlineWorld t srv =
     \<lparr>sync_queue = [], sync_queue_seq = 0, jobs = Map.empty, networkStatus = Online,
      isSyncing = False, lastSyncedAt = None, pendingCount = 0, conflicts = [], error = None,
      clock = t, remote = srv, calls = [], slept = []\<rparr>"
  by (simp add: onlineWorld_def initialWorld_def)

lemma pull_rate_limited:
  "pullChanges ((onlineWorld 5000 (\<lambda>h. Inl rateLimited))\<lparr>isSyncing := True, error := None\<rparr>) =
     (Inr (), (onlineWorld 5000 (\<lambda>h. Inl rateLimited))
        \<lparr>isSyncing := True,
         calls := [pullRequest (onlineWorld 5000 (\<lambda>h. Inl rateLimited)),
                   pullRequest (onlineWorld 5000 (\<lambda>h. Inl rateLimited)),
                   pullRequest (onlineWorld 5000 (\<lambda>h. Inl rateLimited))],
         slept := [1000, 2000], clock := 8000\<rparr>)"
  by (simp add: onlineWorld_eq pullChanges_def retryWithBackoff_unfold3 apiCall_def sleep_def
      isRateLimitError_def rateLimited_def pullRequest_def)

lemma pull_applied:
  "pullChanges ((onlineWorld 5000 pullServer)\<lparr>lastSyncedAt := c, isSyncing := True, error := None\<rparr>) =
     (Inr (), (onlineWorld 5000 pullServer)
        \<lparr>isSyncing := True,
         calls := [pullRequest ((onlineWorld 5000 pullServer)\<lparr>lastSyncedAt := c\<rparr>)],
         jobs := [''job-1'' \<mapsto> \<lparr>data = exampleJob 3 ''scheduled'', server_version = Some 3,
           local_version = 1, is_dirty = 0, last_synced_at = Some 5, job_created_at = 5\<rparr>],
         lastSyncedAt := Some 9000\<rparr>)"
  by (simp add: onlineWorld_eq pullChanges_def retryWithBackoff_unfold3 apiCall_def pullServer_def
      noData_def pullRequest_def saveJobs_def upsertJob_def exampleJob_def Let_def)

lemma pushChanges_empty:
  "sync_queue s = [] \<Longrightarrow> pushChanges s = s\<lparr>pendingCount := 0\<rparr>"
  by (simp add: pushChanges_def getNextQueueItems_def updatePendingCount_def getQueueCount_def)

theorem startSync_cursor_is_device_clock_witness:
  "lastSyncedAt (startSync (onlineWorld 5000 (\<lambda>h. Inl rateLimited))) = Some 8000
   \<and> jobs (startSync (onlineWorld 5000 (\<lambda>h. Inl rateLimited))) ''job-1'' = None
   \<and> error (startSync (onlineWorld 5000 (\<lambda>h. Inl rateLimited))) = None
   \<and> lastSyncedAt (snd (pullChanges ((onlineWorld 5000 pullServer)\<lparr>isSyncing := True, error := None\<rparr>)))
       = Some 9000
   \<and> lastSyncedAt (startSync (onlineWorld 5000 pullServer)) = Some 5000
   \<and> lastSyncedAt (startSync ((onlineWorld 5000 pullServer)\<lparr>lastSyncedAt := Some 9000\<rparr>)) = Some 5000"
proof -
  have on: "networkStatus (onlineWorld t srv) = Online" "\<not> isSyncing (onlineWorld t srv)"
    "networkStatus ((onlineWorld t srv)\<lparr>lastSyncedAt := c\<rparr>) = Online"
    "\<not> isSyncing ((onlineWorld t srv)\<lparr>lastSyncedAt := c\<rparr>)" for t srv c
    by (simp_all add: onlineWorld_eq)
  have 1: "lastSyncedAt (startSync (onlineWorld 5000 (\<lambda>h. Inl rateLimited))) = Some 8000"
    using startSync_cursor_is_device_clock [OF on(1,2) pull_rate_limited]
    by (simp add: pushChanges_empty onlineWorld_eq)
  have 2: "jobs (startSync (onlineWorld 5000 (\<lambda>h. Inl rateLimited))) ''job-1'' = None"
    "error (startSync (onlineWorld 5000 (\<lambda>h. Inl rateLimited))) = None"
    using pull_rate_limited
    by (simp_all add: startSync_def on Let_def pushChanges_empty onlineWorld_eq updatePendingCount_def
        getQueueCount_def)
  have same: "(onlineWorld 5000 pullServer)\<lparr>lastSyncedAt := None\<rparr> = onlineWorld 5000 pullServer"
    by (simp add: onlineWorld_eq)
  have 3: "lastSyncedAt (snd (pullChanges ((onlineWorld 5000 pullServer)\<lparr>isSyncing := True, error := None\<rparr>)))
       = Some 9000"
    using pull_applied [of None] by (simp add: onlineWorld_eq)
  have 4: "lastSyncedAt (startSync (onlineWorld 5000 pullServer)) = Some 5000"
    using startSync_cursor_is_device_clock [OF on(3,4) pull_applied [of None]]
    by (simp add: same pushChanges_empty onlineWorld_eq)
  have 5: "lastSyncedAt (startSync ((onlineWorld 5000 pullServer)\<lparr>lastSyncedAt := Some 9000\<rparr>)) = Some 5000"
    using startSync_cursor_is_device_clock [OF on(3,4) pull_applied [of "Some 9000"]]
    by (simp add: pushChanges_empty onlineWorld_eq)
  show ?thesis using 1 2 3 4 5 by simp
qed



















end
